theory Spec2Isabelle
  imports Complex_Main
begin

section \<open>Python values used by the program\<close>

text \<open>
  The exceptions the two modules can raise. \<open>Exception\<close> is the plain exception of
  \<open>Menace.get_move\<close>; \<open>OverflowError\<close> is raised when an integer is too large to become a
  float.
\<close>

datatype error =
  KeyError | IndexError | ValueError | OverflowError | FileNotFoundError | Exception

text \<open>
  A Python \<open>dict\<close> keeps its keys in insertion order, so it is an association list:
  \<open>d[k] = v\<close> overwrites the entry of an existing key in place and appends a new key at
  the end; \<open>d.get(k)\<close> and \<open>d[k]\<close> read the entry of the key.
\<close>

type_synonym ('k, 'v) dict = "('k \<times> 'v) list"

definition dict_get :: "('k, 'v) dict \<Rightarrow> 'k \<Rightarrow> 'v option" where
  "dict_get d k = map_of d k"

fun dict_set :: "('k, 'v) dict \<Rightarrow> 'k \<Rightarrow> 'v \<Rightarrow> ('k, 'v) dict" where
  "dict_set [] k v = [(k, v)]"
| "dict_set ((k', v') # d) k v = (if k' = k then (k, v) # d else (k', v') # dict_set d k v)"

definition keys :: "('k, 'v) dict \<Rightarrow> 'k list" where
  "keys d = map fst d"

definition vals :: "('k, 'v) dict \<Rightarrow> 'v list" where
  "vals d = map snd d"

section \<open>matchbox.py\<close>

record 'm Matchbox =
  state :: string
  moves_and_beads :: "('m, int) dict"

definition get_beads :: "'m Matchbox \<Rightarrow> 'm \<Rightarrow> int" where
  "get_beads self move =
     (case dict_get (moves_and_beads self) move of Some beads \<Rightarrow> beads | None \<Rightarrow> - 1)"

text \<open>
  \<open>_set_beads\<close>: the right-hand side \<open>self.moves_and_beads[move] + change\<close> is read
  first, so a missing key raises before anything is stored.
\<close>

definition set_beads :: "'m Matchbox \<Rightarrow> 'm \<Rightarrow> int \<Rightarrow> error + 'm Matchbox" where
  "set_beads self move change =
     (let min_beads = 1; max_beads = 15 in
      case dict_get (moves_and_beads self) move of
        None \<Rightarrow> Inl KeyError
      | Some beads \<Rightarrow>
          Inr (self\<lparr>moves_and_beads :=
                 dict_set (moves_and_beads self) move
                   (min (max min_beads (beads + change)) max_beads)\<rparr>))"

definition reward :: "'m Matchbox \<Rightarrow> 'm \<Rightarrow> error + 'm Matchbox" where
  "reward self move = set_beads self move 1"

definition punish :: "'m Matchbox \<Rightarrow> 'm \<Rightarrow> error + 'm Matchbox" where
  "punish self move = set_beads self move (- 1)"

subsection \<open>The weighted draw\<close>

text \<open>
  \<open>draw_bead\<close> calls \<open>random.choices(moves, weights=weights, k=1)[0]\<close> of the standard
  library: the running sums of the weights, an \<open>IndexError\<close> on an empty table
  (\<open>cum_weights[-1]\<close>), the total as a float (\<open>cum_weights[-1] + 0.0\<close>), a \<open>ValueError\<close>
  unless the total is positive, and otherwise
  \<open>population[bisect(cum_weights, random() * total, 0, n - 1)]\<close>.

  Floats are IEEE doubles: 53 significant bits, rounding to the nearest, ties to the even
  significand. \<open>round53\<close> rounds a natural number so. An integer becomes the float
  nearest to it, a whole number again and kept as an integer here, and \<open>OverflowError\<close> is
  raised when that is \<open>2 ^ 1024\<close> or more; such a total is always finite. \<open>random()\<close>
  returns \<open>k / 2 ^ 53\<close> for a \<open>k\<close> below \<open>2 ^ 53\<close>, the argument \<open>k\<close> here; its product with
  a total \<open>t\<close>, a positive whole number, is the double nearest to \<open>k * t / 2 ^ 53\<close>, that is
  \<open>round53 (k * t) / 2 ^ 53\<close>. A float is compared with an integer by value.
\<close>

fun bit_length :: "nat \<Rightarrow> nat" where
  "bit_length n = (if n = 0 then 0 else Suc (bit_length (n div 2)))"

definition round53 :: "nat \<Rightarrow> nat" where
  "round53 m =
     (if m < 2 ^ 53 then m
      else
        (let e = bit_length m - 53; q = m div 2 ^ e; rest = m mod 2 ^ e; half = 2 ^ (e - 1)
         in if half < rest \<or> (rest = half \<and> odd q) then (q + 1) * 2 ^ e else q * 2 ^ e))"

definition int_to_float :: "int \<Rightarrow> error + int" where
  "int_to_float i =
     (let m = round53 (nat \<bar>i\<bar>)
      in if 2 ^ 1024 \<le> m then Inl OverflowError
         else Inr (if i < 0 then - int m else int m))"

definition random_times :: "nat \<Rightarrow> int \<Rightarrow> real" where
  "random_times k float_total = real (round53 (k * nat float_total)) / 2 ^ 53"

fun accumulate_from :: "int \<Rightarrow> int list \<Rightarrow> int list" where
  "accumulate_from t [] = []"
| "accumulate_from t (w # ws) = (t + w) # accumulate_from (t + w) ws"

definition accumulate :: "int list \<Rightarrow> int list" where
  "accumulate ws = accumulate_from 0 ws"

function bisect :: "int list \<Rightarrow> real \<Rightarrow> nat \<Rightarrow> nat \<Rightarrow> nat" where
  "bisect a x lo hi =
     (if lo < hi then
        (let mid = (lo + hi) div 2 in
         if x < real_of_int (a ! mid) then bisect a x lo mid else bisect a x (mid + 1) hi)
      else lo)"
  by pat_completeness auto
termination
  by (relation "measure (\<lambda>(a, x, lo, hi). hi - lo)") auto

definition choices :: "'a list \<Rightarrow> int list \<Rightarrow> nat \<Rightarrow> error + 'a" where
  "choices population weights k =
     (let n = length population; cum_weights = accumulate weights in
      if length cum_weights \<noteq> n then Inl ValueError
      else if cum_weights = [] then Inl IndexError
      else
        (case int_to_float (last cum_weights) of
           Inl e \<Rightarrow> Inl e
         | Inr float_total \<Rightarrow>
             if float_total \<le> 0 then Inl ValueError
             else
               Inr (population ! bisect cum_weights (random_times k float_total) 0 (n - 1))))"

definition draw_bead :: "'m Matchbox \<Rightarrow> nat \<Rightarrow> error + 'm" where
  "draw_bead self k =
     (let moves = keys (moves_and_beads self); weights = vals (moves_and_beads self)
      in choices moves weights k)"

subsection \<open>Conversion to and from a dictionary\<close>

text \<open>
  The values of the dictionary \<open>to_dict\<close> builds are a string and a table of beads.
  \<open>from_dict\<close> passes the two values it finds to the constructor, which stores them as
  they are and never raises: \<open>Matchbox_init st mb\<close> is the object made of them.
\<close>

datatype 'm pyvalue = Str string | Dict "('m, int) dict"

datatype 'm Matchbox_object =
  Matchbox_init (object_state: "'m pyvalue") (object_moves_and_beads: "'m pyvalue")

definition to_dict :: "'m Matchbox \<Rightarrow> (string, 'm pyvalue) dict" where
  "to_dict self = [(''state'', Str (state self)), (''moves'', Dict (moves_and_beads self))]"

definition from_dict :: "(string, 'm pyvalue) dict \<Rightarrow> error + 'm Matchbox_object" where
  "from_dict d =
     (case dict_get d ''state'' of
        None \<Rightarrow> Inl KeyError
      | Some st \<Rightarrow>
          (case dict_get d ''moves_and_beads'' of
             None \<Rightarrow> Inl KeyError
           | Some mb \<Rightarrow> Inr (Matchbox_init st mb)))"

section \<open>menace.py\<close>

text \<open>
  A move is a pair of board coordinates \<open>((from_row, from_col), (to_row, to_col))\<close>:
  \<open>save_model\<close> takes every move apart in this shape and \<open>import_model\<close> builds every
  move in it. A game state is its string.
\<close>

type_synonym move = "(int \<times> int) \<times> (int \<times> int)"

type_synonym matchbox_table = "(string, move Matchbox) dict"

text \<open>
  The model file: a JSON object from state to a list of
  \<open>{"move": [[from_row, from_col], [to_row, to_col]], "beads": n}\<close>. The file system maps
  a path to the JSON document stored there; writing and then reading a document gives
  the document back, and a write always succeeds.
\<close>

record json_item =
  item_move :: "int list list"
  item_beads :: int

type_synonym model_json = "(string, json_item list) dict"

type_synonym files = "string \<Rightarrow> model_json option"

record Menace =
  player_position :: "int option"
  game_name :: string
  states_and_moves :: "(string, move list) dict option"
  model_path :: string
  matchboxes :: matchbox_table

record kwargs =
  kw_player_position :: "int option"
  kw_game_name :: "string option"
  kw_states_and_moves :: "(string, move list) dict option"

subsection \<open>The default path of the model\<close>

definition digit_char :: "nat \<Rightarrow> char" where
  "digit_char d = char_of (48 + d)"

fun str_nat :: "nat \<Rightarrow> string" where
  "str_nat n = (if n < 10 then [digit_char n] else str_nat (n div 10) @ [digit_char (n mod 10)])"

definition str_int :: "int \<Rightarrow> string" where
  "str_int i = (if i < 0 then CHR ''-'' # str_nat (nat (- i)) else str_nat (nat i))"

definition format_position :: "int option \<Rightarrow> string" where
  "format_position p = (case p of None \<Rightarrow> ''None'' | Some i \<Rightarrow> str_int i)"

definition path_join :: "string \<Rightarrow> string \<Rightarrow> string" where
  "path_join a b = (if a = [] \<or> last a = CHR ''/'' then a @ b else a @ ''/'' @ b)"

definition default_model_path :: "string \<Rightarrow> string \<Rightarrow> int option \<Rightarrow> string" where
  "default_model_path base_dir game player =
     path_join base_dir
       (''models/'' @ game @ ''_player'' @ format_position player @ ''_menace_model.json'')"

subsection \<open>Saving and importing\<close>

definition encode_move :: "move \<Rightarrow> int list list" where
  "encode_move mv =
     (case mv of ((from_row, from_col), (to_row, to_col)) \<Rightarrow>
        [[from_row, from_col], [to_row, to_col]])"

fun save_moves :: "(move, int) dict \<Rightarrow> json_item list" where
  "save_moves [] = []"
| "save_moves ((mv, beads) # rest) =
     \<lparr>item_move = encode_move mv, item_beads = beads\<rparr> # save_moves rest"

fun save_states :: "matchbox_table \<Rightarrow> model_json \<Rightarrow> model_json" where
  "save_states [] model = model"
| "save_states ((st, matchbox) # rest) model =
     save_states rest (dict_set model st (save_moves (moves_and_beads matchbox)))"

definition save_model :: "Menace \<Rightarrow> files \<Rightarrow> files" where
  "save_model self fs = fs(model_path self \<mapsto> save_states (matchboxes self) [])"

text \<open>
  \<open>item["move"][0]\<close> and \<open>item["move"][1]\<close> raise \<open>IndexError\<close> on a list that is too
  short; unpacking a coordinate pair raises \<open>ValueError\<close> unless it has two elements.
\<close>

definition decode_move :: "int list list \<Rightarrow> error + move" where
  "decode_move m =
     (case m of
        [] \<Rightarrow> Inl IndexError
      | p0 # rest \<Rightarrow>
          (case p0 of
             [from_row, from_col] \<Rightarrow>
               (case rest of
                  [] \<Rightarrow> Inl IndexError
                | p1 # _ \<Rightarrow>
                    (case p1 of
                       [to_row, to_col] \<Rightarrow> Inr ((from_row, from_col), (to_row, to_col))
                     | _ \<Rightarrow> Inl ValueError))
           | _ \<Rightarrow> Inl ValueError))"

fun import_moves :: "json_item list \<Rightarrow> (move, int) dict \<Rightarrow> error + (move, int) dict" where
  "import_moves [] beads_table = Inr beads_table"
| "import_moves (item # rest) beads_table =
     (case decode_move (item_move item) of
        Inl e \<Rightarrow> Inl e
      | Inr move_tuple \<Rightarrow>
          import_moves rest (dict_set beads_table move_tuple (item_beads item)))"

fun import_states :: "model_json \<Rightarrow> matchbox_table \<Rightarrow> error + matchbox_table" where
  "import_states [] boxes = Inr boxes"
| "import_states ((state_str, moves_list) # rest) boxes =
     (case import_moves moves_list [] of
        Inl e \<Rightarrow> Inl e
      | Inr beads_table \<Rightarrow>
          import_states rest
            (dict_set boxes state_str \<lparr>state = state_str, moves_and_beads = beads_table\<rparr>))"

definition import_model :: "Menace \<Rightarrow> files \<Rightarrow> string \<Rightarrow> error + Menace" where
  "import_model self fs model_file =
     (case fs model_file of
        None \<Rightarrow> Inl FileNotFoundError
      | Some model \<Rightarrow>
          (case import_states model (matchboxes self) of
             Inl e \<Rightarrow> Inl e
           | Inr boxes \<Rightarrow> Inr (self\<lparr>matchboxes := boxes\<rparr>)))"

subsection \<open>Construction\<close>

fun fill_beads :: "move list \<Rightarrow> int \<Rightarrow> (move, int) dict \<Rightarrow> (move, int) dict" where
  "fill_beads [] initial_beads beads_table = beads_table"
| "fill_beads (mv # rest) initial_beads beads_table =
     fill_beads rest initial_beads (dict_set beads_table mv initial_beads)"

fun create_matchboxes ::
  "(string, move list) dict \<Rightarrow> int \<Rightarrow> matchbox_table \<Rightarrow> matchbox_table" where
  "create_matchboxes [] initial_beads boxes = boxes"
| "create_matchboxes ((st, moves) # rest) initial_beads boxes =
     create_matchboxes rest initial_beads
       (dict_set boxes st \<lparr>state = st, moves_and_beads = fill_beads moves initial_beads []\<rparr>)"

definition create_model ::
  "string \<Rightarrow> Menace \<Rightarrow> files \<Rightarrow> int option \<Rightarrow> string \<Rightarrow> (string, move list) dict \<Rightarrow> int
     \<Rightarrow> Menace \<times> files" where
  "create_model base_dir self fs player game table initial_beads =
     (let self1 = self\<lparr>matchboxes := create_matchboxes table initial_beads (matchboxes self)\<rparr>;
          self2 = self1\<lparr>model_path := default_model_path base_dir game player\<rparr>
      in (self2, save_model self2 fs))"

text \<open>
  \<open>__init__\<close>: \<open>kwargs['game_name']\<close> raises \<open>KeyError\<close> when the name is not given;
  \<open>base_dir\<close> is the directory of the module; \<open>create_model\<close> is called with its default
  \<open>initial_beads=3\<close>.
\<close>

definition init :: "string \<Rightarrow> kwargs \<Rightarrow> files \<Rightarrow> error + (Menace \<times> files)" where
  "init base_dir kw fs =
     (case kw_game_name kw of
        None \<Rightarrow> Inl KeyError
      | Some game \<Rightarrow>
          (let self = \<lparr>player_position = kw_player_position kw, game_name = game,
                       states_and_moves = kw_states_and_moves kw,
                       model_path = default_model_path base_dir game (kw_player_position kw),
                       matchboxes = []\<rparr>
           in if fs (model_path self) \<noteq> None then
                (case import_model self fs (model_path self) of
                   Inl e \<Rightarrow> Inl e
                 | Inr self' \<Rightarrow> Inr (self', fs))
              else
                (case states_and_moves self of
                   Some table \<Rightarrow>
                     (case create_model base_dir self fs (player_position self) (game_name self)
                             table 3 of
                        (self1, fs1) \<Rightarrow>
                          (case import_model self1 fs1 (model_path self1) of
                             Inl e \<Rightarrow> Inl e
                           | Inr self2 \<Rightarrow> Inr (self2, fs1)))
                 | None \<Rightarrow> Inl FileNotFoundError)))"

subsection \<open>Choosing a move\<close>

definition get_move :: "Menace \<Rightarrow> string \<Rightarrow> nat \<Rightarrow> error + move" where
  "get_move self board_state k =
     (case dict_get (matchboxes self) board_state of
        None \<Rightarrow> Inl Exception
      | Some matchbox \<Rightarrow> draw_bead matchbox k)"

subsection \<open>Training\<close>

text \<open>
  The slice \<open>game_history[player_idx::2]\<close>: a negative start counts from the end and is
  then clipped to 0, a start beyond the end is clipped to the length.
\<close>

fun every_other :: "'a list \<Rightarrow> 'a list" where
  "every_other [] = []"
| "every_other [x] = [x]"
| "every_other (x # y # rest) = x # every_other rest"

definition slice_step2 :: "'a list \<Rightarrow> int \<Rightarrow> 'a list" where
  "slice_step2 xs start =
     (let n = int (length xs);
          lower = (if start < 0 then max (start + n) 0 else min start n)
      in every_other (drop (nat lower) xs))"

text \<open>
  The two loops of \<open>_train_model\<close> differ in the method they call. A call
  \<open>self.matchboxes[state].reward(move)\<close> raises \<open>KeyError\<close> for a state without a
  matchbox, and for a move that is not in the matchbox; the matchboxes changed before
  stay changed. The result is the exception, if any, and the state left behind.
\<close>

fun adjust_each ::
  "(move Matchbox \<Rightarrow> move \<Rightarrow> error + move Matchbox) \<Rightarrow> (string \<times> move) list \<Rightarrow> matchbox_table
     \<Rightarrow> error option \<times> matchbox_table" where
  "adjust_each method [] boxes = (None, boxes)"
| "adjust_each method ((st, mv) # rest) boxes =
     (case dict_get boxes st of
        None \<Rightarrow> (Some KeyError, boxes)
      | Some matchbox \<Rightarrow>
          (case method matchbox mv of
             Inl e \<Rightarrow> (Some e, boxes)
           | Inr matchbox' \<Rightarrow> adjust_each method rest (dict_set boxes st matchbox')))"

definition train_model ::
  "Menace \<Rightarrow> files \<Rightarrow> (string \<times> move) list \<Rightarrow> int \<Rightarrow> int \<Rightarrow> error option \<times> Menace \<times> files" where
  "train_model self fs game_history player winner =
     (let player_idx = player - 1;
          looped = (if player = winner
                    then adjust_each reward (slice_step2 game_history player_idx) (matchboxes self)
                    else adjust_each punish (slice_step2 game_history player_idx) (matchboxes self))
      in case looped of
           (Some e, boxes) \<Rightarrow> (Some e, self\<lparr>matchboxes := boxes\<rparr>, fs)
         | (None, boxes) \<Rightarrow>
             (None, self\<lparr>matchboxes := boxes\<rparr>, save_model (self\<lparr>matchboxes := boxes\<rparr>) fs))"

definition game_report ::
  "Menace \<Rightarrow> files \<Rightarrow> (string \<times> move) list \<Rightarrow> int \<Rightarrow> int \<Rightarrow> error option \<times> Menace \<times> files" where
  "game_report self fs game_history player winner =
     train_model self fs game_history player winner"

section \<open>Notions used to state the properties\<close>

text \<open>A sequence of \<open>reward\<close> and \<open>punish\<close> calls on one matchbox, stopped by the first exception.\<close>

datatype 'm call = Reward 'm | Punish 'm

fun call_move :: "'m call \<Rightarrow> 'm" where
  "call_move (Reward m) = m"
| "call_move (Punish m) = m"

fun run_calls :: "'m Matchbox \<Rightarrow> 'm call list \<Rightarrow> error + 'm Matchbox" where
  "run_calls self [] = Inr self"
| "run_calls self (Reward m # rest) =
     (case reward self m of Inl e \<Rightarrow> Inl e | Inr self' \<Rightarrow> run_calls self' rest)"
| "run_calls self (Punish m # rest) =
     (case punish self m of Inl e \<Rightarrow> Inl e | Inr self' \<Rightarrow> run_calls self' rest)"

definition weights_in_bounds :: "'m Matchbox \<Rightarrow> bool" where
  "weights_in_bounds self = list_all (\<lambda>w. 1 \<le> w \<and> w \<le> 15) (vals (moves_and_beads self))"

text \<open>
  The turns of a player as the specification words them: the positions
  \<open>player - 1\<close>, \<open>player - 1 + 2\<close>, \<open>player - 1 + 4\<close>, ... of the history.
\<close>

definition own_turns :: "'a list \<Rightarrow> int \<Rightarrow> 'a list" where
  "own_turns history player =
     map (\<lambda>k. history ! (nat (player - 1) + 2 * k))
       [0 ..< (length history + 1 - nat (player - 1)) div 2]"

text \<open>The weight the agent holds for a move of a state, if it holds one.\<close>

definition weight_of :: "matchbox_table \<Rightarrow> string \<Rightarrow> move \<Rightarrow> int option" where
  "weight_of boxes st mv =
     (case dict_get boxes st of None \<Rightarrow> None | Some mb \<Rightarrow> dict_get (moves_and_beads mb) mv)"

definition known_pair :: "matchbox_table \<Rightarrow> string \<times> move \<Rightarrow> bool" where
  "known_pair boxes p = (weight_of boxes (fst p) (snd p) \<noteq> None)"

text \<open>One adjustment of a weight: add the change, then clamp into 1..15.\<close>

definition clamped :: "int \<Rightarrow> int \<Rightarrow> int" where
  "clamped change beads = min (max 1 (beads + change)) 15"

text \<open>
  The shape of a table: its states in their order, and for each state the name stored in
  its matchbox and the moves of the matchbox in their order.
\<close>

definition shape :: "matchbox_table \<Rightarrow> (string \<times> string \<times> move list) list" where
  "shape boxes = map (\<lambda>b. (fst b, state (snd b), keys (moves_and_beads (snd b)))) boxes"

text \<open>A small agent for examples: two moves, and states with two, one and no legal move.\<close>

definition move_A :: move where
  "move_A = ((0, 0), (0, 1))"

definition move_B :: move where
  "move_B = ((0, 0), (1, 0))"

definition example_agent :: Menace where
  "example_agent =
     \<lparr>player_position = Some 1, game_name = ''demo'', states_and_moves = None,
      model_path = ''models/demo_player1_menace_model.json'',
      matchboxes =
        [(''S0'', \<lparr>state = ''S0'', moves_and_beads = [(move_A, 3), (move_B, 3)]\<rparr>),
         (''S1'', \<lparr>state = ''S1'', moves_and_beads = [(move_B, 5)]\<rparr>),
         (''T'', \<lparr>state = ''T'', moves_and_beads = []\<rparr>)]\<rparr>"

text \<open>What \<open>save_model\<close> writes for one state of the table.\<close>

definition saved_state :: "string \<times> move Matchbox \<Rightarrow> string \<times> json_item list" where
  "saved_state b = (fst b, save_moves (moves_and_beads (snd b)))"

text \<open>
  A table as the constructor builds it: no state twice, every matchbox named after its
  state, and no move twice in a matchbox.
\<close>

definition well_formed :: "matchbox_table \<Rightarrow> bool" where
  "well_formed boxes =
     (distinct (keys boxes) \<and>
      list_all (\<lambda>b. state (snd b) = fst b \<and> distinct (keys (moves_and_beads (snd b)))) boxes)"

declare bisect.simps [simp del]

declare bit_length.simps [simp del]

section \<open>Dictionaries\<close>

lemma dict_get_set: "dict_get (dict_set d k v) k' = (if k' = k then Some v else dict_get d k')"
  by (induction d) (auto simp: dict_get_def)

lemma keys_dict_set:
  "keys (dict_set d k v) = (if k \<in> set (keys d) then keys d else keys d @ [k])"
  by (induction d) (force simp: keys_def)+

lemma dict_get_None_iff: "dict_get d k = None \<longleftrightarrow> k \<notin> set (keys d)"
  by (simp add: dict_get_def keys_def map_of_eq_None_iff)

lemma dict_get_Some_keys: "dict_get d k = Some v \<Longrightarrow> k \<in> set (keys d)"
  using dict_get_None_iff [of d k] by auto

lemma dict_set_same: "dict_get d k = Some v \<Longrightarrow> dict_set d k v = d"
  by (induction d) (auto simp: dict_get_def split: if_splits)

lemma vals_dict_set: "set (vals (dict_set d k v)) \<subseteq> insert v (set (vals d))"
proof (induction d)
  case Nil
  then show ?case by (simp add: vals_def)
next
  case (Cons p d)
  then show ?case by (cases p) (auto simp: vals_def)
qed

section \<open>The matchbox\<close>

lemma set_beads_keys:
  "set_beads self m c = Inr self' \<Longrightarrow> keys (moves_and_beads self') = keys (moves_and_beads self)"
  by (auto simp: set_beads_def keys_dict_set dict_get_Some_keys split: option.splits)

lemma set_beads_state:
  "set_beads self m c = Inr self' \<Longrightarrow> state self' = state self"
  by (auto simp: set_beads_def split: option.splits)

lemma set_beads_bounds:
  assumes "set_beads self m c = Inr self'" and "weights_in_bounds self"
  shows "weights_in_bounds self'"
proof -
  from assms(1) obtain b where
    s': "self' = self\<lparr>moves_and_beads := dict_set (moves_and_beads self) m (min (max 1 (b + c)) 15)\<rparr>"
    by (auto simp: set_beads_def split: option.splits)
  have "set (vals (moves_and_beads self'))
          \<subseteq> insert (min (max 1 (b + c)) 15) (set (vals (moves_and_beads self)))"
    unfolding s' using vals_dict_set by force
  with assms(2) show ?thesis
    by (auto simp: weights_in_bounds_def list_all_iff)
qed

lemma set_beads_known:
  "m \<in> set (keys (moves_and_beads self)) \<Longrightarrow> \<exists>self'. set_beads self m c = Inr self'"
  by (cases "dict_get (moves_and_beads self) m") (auto simp: set_beads_def dict_get_None_iff)

lemma set_beads_unknown:
  "m \<notin> set (keys (moves_and_beads self)) \<Longrightarrow> set_beads self m c = Inl KeyError"
  using dict_get_None_iff [of "moves_and_beads self" m] by (simp add: set_beads_def)

text \<open>
  C1. Reading a matchbox back from the dictionary \<open>to_dict\<close> made of it should give the
  matchbox again. It does not: \<open>to_dict\<close> stores the table under the key \<open>moves\<close>,
  \<open>from_dict\<close> reads the key \<open>moves_and_beads\<close>, and so \<open>from_dict (to_dict m)\<close> raises
  \<open>KeyError\<close> for every matchbox \<open>m\<close>.
\<close>

theorem from_dict_to_dict_raises: "from_dict (to_dict m) = Inl KeyError"
  by (simp add: from_dict_def to_dict_def dict_get_def)

text \<open>
  C2. A matchbox whose weights all lie between 1 and 15 is taken by any sequence of
  \<open>reward\<close> and \<open>punish\<close> calls on moves of its key set to a matchbox whose weights all
  lie between 1 and 15: no call raises, and the keys stay as they were.
\<close>

theorem weights_stay_in_bounds:
  assumes "weights_in_bounds self"
    and "\<forall>c \<in> set calls. call_move c \<in> set (keys (moves_and_beads self))"
  shows "\<exists>self'. run_calls self calls = Inr self' \<and> weights_in_bounds self'
           \<and> keys (moves_and_beads self') = keys (moves_and_beads self)"
  using assms
proof (induction calls arbitrary: self)
  case Nil
  then show ?case by simp
next
  case (Cons c calls)
  let ?delta = "(case c of Reward _ \<Rightarrow> 1 | Punish _ \<Rightarrow> - 1) :: int"
  from Cons.prems(2) have "call_move c \<in> set (keys (moves_and_beads self))" by simp
  then obtain mid where mid: "set_beads self (call_move c) ?delta = Inr mid"
    using set_beads_known [of "call_move c" self ?delta] by auto
  have k: "keys (moves_and_beads mid) = keys (moves_and_beads self)"
    using mid by (rule set_beads_keys)
  have b: "weights_in_bounds mid"
    using mid Cons.prems(1) by (rule set_beads_bounds)
  from Cons.prems(2) k have "\<forall>c \<in> set calls. call_move c \<in> set (keys (moves_and_beads mid))"
    by simp
  from Cons.IH [OF b this] obtain self' where
    "run_calls mid calls = Inr self'" "weights_in_bounds self'"
    "keys (moves_and_beads self') = keys (moves_and_beads mid)" by blast
  with mid k show ?case
    by (cases c) (simp_all add: reward_def punish_def)
qed

theorem weights_stay_in_bounds_witness:
  "weights_in_bounds \<lparr>state = ''S0'', moves_and_beads = [(''A'', 15), (''B'', 1)]\<rparr>
   \<and> run_calls \<lparr>state = ''S0'', moves_and_beads = [(''A'', 15), (''B'', 1)]\<rparr>
        [Reward ''A'', Punish ''B'', Punish ''B'', Reward ''B'', Punish ''A'']
      = Inr \<lparr>state = ''S0'', moves_and_beads = [(''A'', 14), (''B'', 2)]\<rparr>
   \<and> weights_in_bounds \<lparr>state = ''S0'', moves_and_beads = [(''A'', 14), (''B'', 2)]\<rparr>"
proof -
  let ?m = "\<lparr>state = ''S0'', moves_and_beads = [(''A'', 15::int), (''B'', 1)]\<rparr>"
  let ?cs = "[Reward ''A'', Punish ''B'', Punish ''B'', Reward ''B'', Punish ''A'']"
  have h1: "weights_in_bounds ?m"
    by (simp add: weights_in_bounds_def vals_def)
  have h2: "\<forall>c \<in> set ?cs. call_move c \<in> set (keys (moves_and_beads ?m))"
    by (simp add: keys_def)
  have r: "run_calls ?m ?cs = Inr \<lparr>state = ''S0'', moves_and_beads = [(''A'', 14), (''B'', 2)]\<rparr>"
    by (simp add: reward_def punish_def set_beads_def dict_get_def)
  from weights_stay_in_bounds [OF h1 h2] r h1 show ?thesis by auto
qed

text \<open>
  C3. \<open>punish\<close> on a move whose weight is 1 returns without an exception and leaves the
  matchbox as it is; so does \<open>reward\<close> on a move whose weight is 15. (A weight of 1 or 15
  read by \<open>get_beads\<close> is the weight of a move of the key set: a miss reads \<open>-1\<close>.)
\<close>

theorem floor_and_ceiling:
  "(get_beads self m = 1 \<longrightarrow> punish self m = Inr self) \<and>
   (get_beads self m = 15 \<longrightarrow> reward self m = Inr self)"
  by (auto simp: get_beads_def punish_def reward_def set_beads_def dict_set_same
           split: option.splits)

theorem floor_and_ceiling_witness:
  "get_beads \<lparr>state = ''S0'', moves_and_beads = [(''A'', 15), (''B'', 1)]\<rparr> ''B'' = 1
   \<and> punish \<lparr>state = ''S0'', moves_and_beads = [(''A'', 15), (''B'', 1)]\<rparr> ''B''
       = Inr \<lparr>state = ''S0'', moves_and_beads = [(''A'', 15), (''B'', 1)]\<rparr>
   \<and> get_beads \<lparr>state = ''S0'', moves_and_beads = [(''A'', 15), (''B'', 1)]\<rparr> ''A'' = 15
   \<and> reward \<lparr>state = ''S0'', moves_and_beads = [(''A'', 15), (''B'', 1)]\<rparr> ''A''
       = Inr \<lparr>state = ''S0'', moves_and_beads = [(''A'', 15), (''B'', 1)]\<rparr>"
  using floor_and_ceiling [of "\<lparr>state = ''S0'', moves_and_beads = [(''A'', 15), (''B'', 1)]\<rparr>" "''B''"]
        floor_and_ceiling [of "\<lparr>state = ''S0'', moves_and_beads = [(''A'', 15), (''B'', 1)]\<rparr>" "''A''"]
  by (simp add: get_beads_def dict_get_def)

text \<open>
  C4. \<open>get_beads\<close> returns \<open>-1\<close> for a move that is not a key of the table, and the
  weight stored with the move for a move that is. It is a pure read: it returns the
  number only and stores nothing.
\<close>

theorem get_beads_sentinel:
  "(m \<notin> set (keys (moves_and_beads self)) \<longrightarrow> get_beads self m = - 1) \<and>
   (distinct (keys (moves_and_beads self)) \<longrightarrow>
      (\<forall>w. (m, w) \<in> set (moves_and_beads self) \<longrightarrow> get_beads self m = w))"
  using dict_get_None_iff [of "moves_and_beads self" m]
  by (auto simp: get_beads_def dict_get_def keys_def split: option.splits)

theorem get_beads_sentinel_witness:
  "''C'' \<notin> set (keys (moves_and_beads \<lparr>state = ''S0'', moves_and_beads = [(''A'', 3), (''B'', 7)]\<rparr>))
   \<and> get_beads \<lparr>state = ''S0'', moves_and_beads = [(''A'', 3), (''B'', 7)]\<rparr> ''C'' = - 1
   \<and> distinct (keys (moves_and_beads \<lparr>state = ''S0'', moves_and_beads = [(''A'', 3), (''B'', 7)]\<rparr>))
   \<and> (''B'', 7) \<in> set (moves_and_beads \<lparr>state = ''S0'', moves_and_beads = [(''A'', 3), (''B'', 7)]\<rparr>)
   \<and> get_beads \<lparr>state = ''S0'', moves_and_beads = [(''A'', 3), (''B'', 7)]\<rparr> ''B'' = 7"
  using get_beads_sentinel [of "''C''" "\<lparr>state = ''S0'', moves_and_beads = [(''A'', 3), (''B'', 7)]\<rparr>"]
        get_beads_sentinel [of "''B''" "\<lparr>state = ''S0'', moves_and_beads = [(''A'', 3), (''B'', 7)]\<rparr>"]
  by (simp add: keys_def)

text \<open>
  C5. For a move that is not a key of the table, \<open>_set_beads\<close>, \<open>reward\<close> and \<open>punish\<close>
  raise \<open>KeyError\<close>. A call that returns leaves the list of keys as it was, so no move is
  ever added or removed.
\<close>

theorem set_beads_key_error:
  "(m \<notin> set (keys (moves_and_beads self)) \<longrightarrow>
      set_beads self m change = Inl KeyError \<and> reward self m = Inl KeyError
      \<and> punish self m = Inl KeyError) \<and>
   (\<forall>self'. set_beads self m change = Inr self' \<or> reward self m = Inr self'
             \<or> punish self m = Inr self' \<longrightarrow>
      keys (moves_and_beads self') = keys (moves_and_beads self) \<and> state self' = state self)"
  using set_beads_unknown [of m self] set_beads_keys [of self m] set_beads_state [of self m]
  by (auto simp: reward_def punish_def)

theorem set_beads_key_error_witness:
  "''C'' \<notin> set (keys (moves_and_beads \<lparr>state = ''S0'', moves_and_beads = [(''A'', 3), (''B'', 7)]\<rparr>))
   \<and> set_beads \<lparr>state = ''S0'', moves_and_beads = [(''A'', 3), (''B'', 7)]\<rparr> ''C'' 1 = Inl KeyError
   \<and> reward \<lparr>state = ''S0'', moves_and_beads = [(''A'', 3), (''B'', 7)]\<rparr> ''B''
       = Inr \<lparr>state = ''S0'', moves_and_beads = [(''A'', 3), (''B'', 8)]\<rparr>
   \<and> keys (moves_and_beads \<lparr>state = ''S0'', moves_and_beads = [(''A'', 3), (''B'', 8)]\<rparr>)
       = keys (moves_and_beads \<lparr>state = ''S0'', moves_and_beads = [(''A'', 3), (''B'', 7)]\<rparr>)"
proof -
  let ?m = "\<lparr>state = ''S0'', moves_and_beads = [(''A'', 3::int), (''B'', 7)]\<rparr>"
  let ?m' = "\<lparr>state = ''S0'', moves_and_beads = [(''A'', 3::int), (''B'', 8)]\<rparr>"
  have h: "''C'' \<notin> set (keys (moves_and_beads ?m))"
    by (simp add: keys_def)
  have r: "reward ?m ''B'' = Inr ?m'"
    by (simp add: reward_def set_beads_def dict_get_def)
  from set_beads_key_error [of "''C''" ?m 1] h
  have 1: "set_beads ?m ''C'' 1 = Inl KeyError" by blast
  from set_beads_key_error [of "''B''" ?m 1] r
  have 2: "keys (moves_and_beads ?m') = keys (moves_and_beads ?m)" by blast
  from h 1 r 2 show ?thesis by blast
qed

section \<open>The weighted draw\<close>

lemma bit_length_bounds:
  "0 < n \<Longrightarrow> 2 ^ (bit_length n - 1) \<le> n \<and> n < 2 ^ bit_length n"
proof (induction n rule: bit_length.induct)
  case (1 n)
  have bl: "bit_length n = Suc (bit_length (n div 2))"
    using "1.prems" by (subst bit_length.simps) simp
  show ?case
  proof (cases "n div 2 = 0")
    case True
    with "1.prems" have "n = 1" by (simp add: div_eq_0_iff) 
    moreover have "bit_length (0::nat) = 0" by (subst bit_length.simps) simp
    ultimately show ?thesis using bl by simp
  next
    case False
    then have pos: "0 < n div 2" by simp
    from "1.prems" have "n \<noteq> 0" by simp
    from "1.IH" [OF this pos]
    have lo: "2 ^ (bit_length (n div 2) - 1) \<le> n div 2" and hi: "n div 2 < 2 ^ bit_length (n div 2)"
      by simp_all
    have "0 < bit_length (n div 2)"
      using pos by (subst bit_length.simps) simp
    then have e: "bit_length n - 1 = Suc (bit_length (n div 2) - 1)"
      using bl by simp
    have "2 ^ (bit_length n - 1) = 2 * 2 ^ (bit_length (n div 2) - 1)"
      unfolding e by simp
    also have "\<dots> \<le> 2 * (n div 2)" using lo by simp
    also have "\<dots> \<le> n" by simp
    finally have 1: "2 ^ (bit_length n - 1) \<le> n" .
    have "n < 2 * (n div 2) + 2" by presburger
    also have "\<dots> \<le> 2 * 2 ^ bit_length (n div 2)" using hi by simp
    finally have 2: "n < 2 ^ bit_length n" unfolding bl by simp
    from 1 2 show ?thesis by simp
  qed
qed

lemma round53_small: "m < 2 ^ 53 \<Longrightarrow> round53 m = m"
  by (simp add: round53_def)

lemma round53_pos:
  assumes "0 < m"
  shows "0 < round53 m"
proof (cases "m < 2 ^ 53")
  case True
  with assms show ?thesis by (simp add: round53_small)
next
  case False
  let ?e = "bit_length m - 53"
  let ?q = "m div 2 ^ ?e"
  from bit_length_bounds [OF assms] have lo: "2 ^ (bit_length m - 1) \<le> m" by simp
  have "(2::nat) ^ ?e \<le> 2 ^ (bit_length m - 1)"
    by (rule power_increasing) simp_all
  from this lo have "2 ^ ?e \<le> m" by (rule order_trans)
  then have q: "0 < ?q" by (simp add: div_greater_zero_iff)
  then have "0 < ?q * 2 ^ ?e" by simp
  moreover have "?q * 2 ^ ?e \<le> (?q + 1) * 2 ^ ?e" by simp
  ultimately show ?thesis
    using False by (simp add: round53_def Let_def del: One_nat_def)
qed


text \<open>
  Rounding to 53 significant bits stays below \<open>2 ^ 1024\<close> exactly for the numbers below
  \<open>2 ^ 1024 - 2 ^ 970\<close>, the midpoint between the largest double and \<open>2 ^ 1024\<close>.
\<close>

lemma round53_range: "round53 m < 2 ^ 1024 \<longleftrightarrow> m < 2 ^ 1024 - 2 ^ 970"
proof (cases "m < 2 ^ 53")
  case True
  have "(2::nat) ^ 53 \<le> 2 ^ 1024 - 2 ^ 970" by simp
  with True have "m < 2 ^ 1024 - 2 ^ 970" by linarith
  moreover have "(2::nat) ^ 53 \<le> 2 ^ 1024" by simp
  with True have "m < 2 ^ 1024" by linarith
  with True have "round53 m < 2 ^ 1024" by (simp only: round53_small)
  ultimately show ?thesis by simp
next
  case False
  then have pos: "0 < m" by simp
  define L where "L = bit_length m"
  define e where "e = L - 53"
  define q where "q = m div 2 ^ e"
  define r where "r = m mod 2 ^ e"
  define c :: nat where "c = (if 2 ^ (e - 1) < r \<or> (r = 2 ^ (e - 1) \<and> odd q) then 1 else 0)"
  from bit_length_bounds [OF pos] have lo: "2 ^ (L - 1) \<le> m" and hi: "m < 2 ^ L"
    by (simp_all add: L_def)
  have L54: "54 \<le> L"
  proof (rule ccontr)
    assume "\<not> 54 \<le> L"
    then have "L \<le> 53" by simp
    then have "(2::nat) ^ L \<le> 2 ^ 53" by (rule power_increasing) simp
    with hi False show False by simp
  qed
  then have Le: "L = e + 53" and e1: "1 \<le> e" by (simp_all add: e_def)
  have R: "round53 m = (q + c) * 2 ^ e"
    using False by (simp add: round53_def Let_def c_def q_def r_def e_def L_def)
  have m: "m = q * 2 ^ e + r"
    using div_mult_mod_eq [of m "2 ^ e"] by (simp add: q_def r_def)
  have rlt: "r < 2 ^ e"
    by (simp add: r_def)
  have L1: "L - 1 = 52 + e" using Le by simp
  have "q * 2 ^ e \<le> m" using m by simp
  moreover have "m < 2 ^ 53 * 2 ^ e"
    using hi unfolding Le by (simp only: power_add mult.commute)
  ultimately have "q * 2 ^ e < 2 ^ 53 * 2 ^ e" by linarith
  then have q_hi: "q < 2 ^ 53" by (simp only: mult_less_cancel2)
  have "2 ^ 52 * 2 ^ e \<le> m"
    using lo unfolding L1 by (simp only: power_add)
  moreover have "m < (q + 1) * 2 ^ e"
    using m rlt by (simp add: algebra_simps)
  ultimately have "2 ^ 52 * 2 ^ e < (q + 1) * 2 ^ e" by linarith
  then have "2 ^ 52 < q + 1" by (simp only: mult_less_cancel2)
  then have q_lo: "2 ^ 52 \<le> q" by simp
  have c01: "c \<le> 1" by (simp add: c_def)
  consider "L \<le> 1023" | "L = 1024" | "1025 \<le> L" by linarith
  then show ?thesis
  proof cases
    case 1
    then have "(2::nat) ^ L \<le> 2 ^ 1023" by (intro power_increasing) simp_all
    moreover have "(2::nat) ^ 1023 < 2 ^ 1024 - 2 ^ 970" by simp
    ultimately have a: "m < 2 ^ 1024 - 2 ^ 970" using hi by linarith
    have "(q + c) * 2 ^ e \<le> 2 ^ 53 * 2 ^ e"
      using q_hi c01 by (intro mult_right_mono) simp_all
    also have "\<dots> = 2 ^ L" unfolding Le by (simp only: power_add mult.commute)
    also have "\<dots> \<le> 2 ^ 1023" by fact
    also have "\<dots> < (2::nat) ^ 1024" by simp
    finally have "round53 m < 2 ^ 1024" by (simp add: R)
    with a show ?thesis by simp
  next
    case 3
    then have "(2::nat) ^ 1024 \<le> 2 ^ (L - 1)" by (intro power_increasing) simp_all
    with lo have big: "2 ^ 1024 \<le> m" by linarith
    have a1: "2 ^ 52 * 2 ^ e \<le> (q + c) * 2 ^ e"
      using q_lo by (intro mult_right_mono) simp_all
    have a2: "(2::nat) ^ 52 * 2 ^ e = 2 ^ (L - 1)"
      unfolding L1 by (simp only: power_add)
    have "(2::nat) ^ 1024 \<le> 2 ^ (L - 1)" by fact
    also have "\<dots> = 2 ^ 52 * 2 ^ e" by (rule a2 [symmetric])
    also have "\<dots> \<le> (q + c) * 2 ^ e" by (rule a1)
    finally have "2 ^ 1024 \<le> round53 m" unfolding R .
    with big show ?thesis by simp
  next
    case 2
    then have e: "e = 971" by (simp add: Le)
    have h: "e - 1 = 970" by (simp add: e)
    show ?thesis
    proof (cases "q = 2 ^ 53 - 1")
      case True
      then have "odd q" by simp
      then have c: "c = (if 2 ^ 970 \<le> r then 1 else 0)"
        unfolding c_def h by auto
      have 1: "round53 m < 2 ^ 1024 \<longleftrightarrow> r < 2 ^ 970"
        unfolding R c e True by (simp split: if_splits)
      have "m = (2 ^ 53 - 1) * 2 ^ 971 + r"
        using m unfolding e True .
      then have 2: "m < 2 ^ 1024 - 2 ^ 970 \<longleftrightarrow> r < 2 ^ 970"
        by simp
      from 1 2 show ?thesis by simp
    next
      case False
      with q_hi have q2: "q + 1 < 2 ^ 53" by simp
      then have "q + c < 2 ^ 53" using c01 by linarith
      then have "(q + c) * 2 ^ 971 < 2 ^ 53 * 2 ^ 971" by simp
      then have a: "round53 m < 2 ^ 1024" by (simp add: R e)
      from q2 have "q + 2 \<le> 2 ^ 53" by simp
      then have "(q + 2) * 2 ^ 971 \<le> 2 ^ 53 * 2 ^ 971" by (intro mult_right_mono) simp_all
      with m rlt have "m < 2 ^ 1024 - 2 ^ 970" by (simp add: e)
      with a show ?thesis by simp
    qed
  qed
qed


text \<open>
  An integer becomes a float exactly when its magnitude is below \<open>2 ^ 1024 - 2 ^ 970\<close>, and
  the float has the sign of the integer.
\<close>

lemma int_to_float_positive:
  assumes "0 < i" and "i < 2 ^ 1024 - 2 ^ 970"
  shows "\<exists>t. int_to_float i = Inr t \<and> 0 < t"
proof -
  from assms have "nat \<bar>i\<bar> < 2 ^ 1024 - 2 ^ 970" by simp
  with round53_range [of "nat \<bar>i\<bar>"] have r: "round53 (nat \<bar>i\<bar>) < 2 ^ 1024" by blast
  from assms(1) have "0 < nat \<bar>i\<bar>" by simp
  then have "0 < round53 (nat \<bar>i\<bar>)" by (rule round53_pos)
  with r assms(1) show ?thesis
    by (simp add: int_to_float_def Let_def)
qed

lemma int_to_float_nonpositive:
  assumes "i \<le> 0" and "- (2 ^ 1024 - 2 ^ 970) < i"
  shows "\<exists>t. int_to_float i = Inr t \<and> t \<le> 0"
proof -
  from assms have "nat \<bar>i\<bar> < 2 ^ 1024 - 2 ^ 970" by simp
  with round53_range [of "nat \<bar>i\<bar>"] have r: "round53 (nat \<bar>i\<bar>) < 2 ^ 1024" by blast
  show ?thesis
  proof (cases "i = 0")
    case True
    then show ?thesis by (simp add: int_to_float_def round53_small)
  next
    case False
    with assms(1) r show ?thesis
      by (simp add: int_to_float_def Let_def)
  qed
qed

lemma int_to_float_overflow:
  assumes "2 ^ 1024 - 2 ^ 970 \<le> \<bar>i\<bar>"
  shows "int_to_float i = Inl OverflowError"
proof -
  from assms have "\<not> nat \<bar>i\<bar> < 2 ^ 1024 - 2 ^ 970" by simp
  with round53_range [of "nat \<bar>i\<bar>"] have "\<not> round53 (nat \<bar>i\<bar>) < 2 ^ 1024" by blast
  then show ?thesis
    by (simp add: int_to_float_def Let_def)
qed

lemma length_accumulate_from: "length (accumulate_from t ws) = length ws"
  by (induction ws arbitrary: t) auto

lemma last_accumulate_from:
  "ws \<noteq> [] \<Longrightarrow> last (accumulate_from t ws) = t + sum_list ws"
proof (induction ws arbitrary: t)
  case Nil
  then show ?case by simp
next
  case (Cons w ws)
  show ?case
  proof (cases ws)
    case Nil
    then show ?thesis by simp
  next
    case (Cons v vs)
    with Cons.IH [of "t + w"] show ?thesis by simp
  qed
qed

text \<open>The index \<open>bisect\<close> returns lies between its two bounds, whatever number is searched.\<close>

lemma bisect_bounds: "lo \<le> hi \<Longrightarrow> lo \<le> bisect a x lo hi \<and> bisect a x lo hi \<le> hi"
proof (induction a x lo hi rule: bisect.induct)
  case (1 a x lo hi)
  show ?case
  proof (cases "lo < hi")
    case False
    have "bisect a x lo hi = lo"
      by (subst bisect.simps) (simp add: False)
    with "1.prems" show ?thesis by simp
  next
    case True
    let ?mid = "(lo + hi) div 2"
    show ?thesis
    proof (cases "x < real_of_int (a ! ?mid)")
      case left: True
      have eq: "bisect a x lo hi = bisect a x lo ?mid"
        by (subst bisect.simps) (simp add: True left)
      from True have m: "lo \<le> ?mid" "?mid \<le> hi" by simp_all
      from "1.IH"(1) [OF True refl left m(1)] m(2) show ?thesis
        unfolding eq by linarith
    next
      case right: False
      have eq: "bisect a x lo hi = bisect a x (?mid + 1) hi"
        by (subst bisect.simps) (simp add: True right)
      from True have m: "?mid + 1 \<le> hi" "lo \<le> ?mid + 1" by simp_all
      from "1.IH"(2) [OF True refl right m(1)] m(2) show ?thesis
        unfolding eq by linarith
    qed
  qed
qed

lemma choices_total:
  assumes "population \<noteq> []" and "length weights = length population"
  shows "length (accumulate weights) = length population"
    and "accumulate weights \<noteq> []"
    and "last (accumulate weights) = sum_list weights"
proof -
  from assms have ne: "weights \<noteq> []" by auto
  show len: "length (accumulate weights) = length population"
    using assms(2) by (simp add: accumulate_def length_accumulate_from)
  show "accumulate weights \<noteq> []"
    using len assms(1) by auto
  show "last (accumulate weights) = sum_list weights"
    using last_accumulate_from [OF ne, of 0] by (simp add: accumulate_def)
qed

lemma choices_member:
  assumes "population \<noteq> []" and "length weights = length population"
    and "0 < sum_list weights" and "sum_list weights < 2 ^ 1024 - 2 ^ 970"
  shows "\<exists>x. choices population weights k = Inr x \<and> x \<in> set population"
proof -
  let ?cum = "accumulate weights"
  let ?n = "length population"
  note t = choices_total [OF assms(1,2)]
  from int_to_float_positive [OF assms(3,4)] obtain ft where
    ft: "int_to_float (sum_list weights) = Inr ft" and pos: "0 < ft" by blast
  have "bisect ?cum (random_times k ft) 0 (?n - 1) \<le> ?n - 1"
    using bisect_bounds [of 0 "?n - 1"] by simp
  with assms(1) have idx: "bisect ?cum (random_times k ft) 0 (?n - 1) < ?n"
    by (cases population) auto
  have "choices population weights k
          = Inr (population ! bisect ?cum (random_times k ft) 0 (?n - 1))"
    using t ft pos by (simp add: choices_def Let_def)
  with idx show ?thesis by simp
qed

lemma choices_overflow:
  assumes "population \<noteq> []" and "length weights = length population"
    and "2 ^ 1024 - 2 ^ 970 \<le> \<bar>sum_list weights\<bar>"
  shows "choices population weights k = Inl OverflowError"
  using choices_total [OF assms(1,2)] int_to_float_overflow [OF assms(3)]
  by (simp add: choices_def Let_def)

lemma choices_nonpositive:
  assumes "population \<noteq> []" and "length weights = length population"
    and "sum_list weights \<le> 0" and "- (2 ^ 1024 - 2 ^ 970) < sum_list weights"
  shows "choices population weights k = Inl ValueError"
proof -
  from int_to_float_nonpositive [OF assms(3,4)] obtain ft where
    "int_to_float (sum_list weights) = Inr ft" and "ft \<le> 0" by blast
  with choices_total [OF assms(1,2)] show ?thesis
    by (simp add: choices_def Let_def)
qed

lemma choices_empty: "choices [] [] k = Inl IndexError"
  by (simp add: choices_def accumulate_def)

lemma draw_bead_choices:
  "draw_bead mb k = choices (keys (moves_and_beads mb)) (vals (moves_and_beads mb)) k"
  by (simp add: draw_bead_def)

lemma draw_bead_member:
  assumes "moves_and_beads mb \<noteq> []" and "0 < sum_list (vals (moves_and_beads mb))"
    and "sum_list (vals (moves_and_beads mb)) < 2 ^ 1024 - 2 ^ 970"
  shows "\<exists>mv. draw_bead mb k = Inr mv \<and> mv \<in> set (keys (moves_and_beads mb))"
  unfolding draw_bead_choices
  using assms by (intro choices_member) (simp_all add: keys_def vals_def)

lemma bounds_sum:
  assumes "weights_in_bounds mb" and "moves_and_beads mb \<noteq> []"
  shows "0 < sum_list (vals (moves_and_beads mb))"
    and "sum_list (vals (moves_and_beads mb)) \<le> 15 * int (length (moves_and_beads mb))"
proof -
  have "list_all (\<lambda>w. 1 \<le> w \<and> w \<le> 15) ws \<Longrightarrow> ws \<noteq> [] \<Longrightarrow> 0 < sum_list ws"
    for ws :: "int list"
    by (induction ws) (auto simp: list_all_iff intro!: add_pos_nonneg sum_list_nonneg)
  with assms show "0 < sum_list (vals (moves_and_beads mb))"
    by (simp add: weights_in_bounds_def vals_def)
  have "list_all (\<lambda>w. 1 \<le> w \<and> w \<le> 15) ws \<Longrightarrow> sum_list ws \<le> 15 * int (length ws)"
    for ws :: "int list"
    by (induction ws) auto
  from this [of "vals (moves_and_beads mb)"] assms(1)
  show "sum_list (vals (moves_and_beads mb)) \<le> 15 * int (length (moves_and_beads mb))"
    by (simp add: weights_in_bounds_def vals_def)
qed


text \<open>
  C9 (as the code has it). \<open>get_move\<close> raises the plain exception for a state without a
  matchbox. For a state whose matchbox has at least one move and a total weight that is
  positive and below \<open>2 ^ 1024 - 2 ^ 970\<close>, the least integer that is too large for a float
  (so for every non-empty matchbox with weights in 1..15 and fewer than \<open>2 ^ 1000\<close> moves),
  it returns a move of the key set of that matchbox, whatever number is drawn; with a
  single move of such a weight it returns that move. For a state whose matchbox has no
  move it raises \<open>IndexError\<close>; for a total weight of magnitude \<open>2 ^ 1024 - 2 ^ 970\<close> or more
  it raises \<open>OverflowError\<close>, and for any other total weight that is not positive
  \<open>ValueError\<close>.
\<close>

theorem get_move_known_state:
  "(dict_get (matchboxes self) st = None \<longrightarrow> get_move self st k = Inl Exception) \<and>
   (\<forall>mb. dict_get (matchboxes self) st = Some mb \<and> moves_and_beads mb \<noteq> []
          \<and> 0 < sum_list (vals (moves_and_beads mb))
          \<and> sum_list (vals (moves_and_beads mb)) < 2 ^ 1024 - 2 ^ 970 \<longrightarrow>
      (\<exists>mv. get_move self st k = Inr mv \<and> mv \<in> set (keys (moves_and_beads mb)))) \<and>
   (\<forall>mb. dict_get (matchboxes self) st = Some mb \<and> moves_and_beads mb \<noteq> []
          \<and> weights_in_bounds mb \<and> length (moves_and_beads mb) < 2 ^ 1000 \<longrightarrow>
      (\<exists>mv. get_move self st k = Inr mv \<and> mv \<in> set (keys (moves_and_beads mb)))) \<and>
   (\<forall>mb mv w. dict_get (matchboxes self) st = Some mb \<and> moves_and_beads mb = [(mv, w)]
          \<and> 0 < w \<and> w < 2 ^ 1024 - 2 ^ 970 \<longrightarrow> get_move self st k = Inr mv) \<and>
   (\<forall>mb. dict_get (matchboxes self) st = Some mb \<and> moves_and_beads mb = [] \<longrightarrow>
      get_move self st k = Inl IndexError) \<and>
   (\<forall>mb. dict_get (matchboxes self) st = Some mb \<and> moves_and_beads mb \<noteq> []
          \<and> 2 ^ 1024 - 2 ^ 970 \<le> \<bar>sum_list (vals (moves_and_beads mb))\<bar> \<longrightarrow>
      get_move self st k = Inl OverflowError) \<and>
   (\<forall>mb. dict_get (matchboxes self) st = Some mb \<and> moves_and_beads mb \<noteq> []
          \<and> sum_list (vals (moves_and_beads mb)) \<le> 0
          \<and> - (2 ^ 1024 - 2 ^ 970) < sum_list (vals (moves_and_beads mb)) \<longrightarrow>
      get_move self st k = Inl ValueError)"
proof (intro conjI allI impI)
  assume "dict_get (matchboxes self) st = None"
  then show "get_move self st k = Inl Exception" by (simp add: get_move_def)
next
  fix mb
  assume a: "dict_get (matchboxes self) st = Some mb \<and> moves_and_beads mb \<noteq> []
          \<and> 0 < sum_list (vals (moves_and_beads mb))
          \<and> sum_list (vals (moves_and_beads mb)) < 2 ^ 1024 - 2 ^ 970"
  with draw_bead_member [of mb k]
  show "\<exists>mv. get_move self st k = Inr mv \<and> mv \<in> set (keys (moves_and_beads mb))"
    by (simp add: get_move_def)
next
  fix mb
  assume a: "dict_get (matchboxes self) st = Some mb \<and> moves_and_beads mb \<noteq> []
          \<and> weights_in_bounds mb \<and> length (moves_and_beads mb) < 2 ^ 1000"
  then have pos: "0 < sum_list (vals (moves_and_beads mb))"
    and le: "sum_list (vals (moves_and_beads mb)) \<le> 15 * int (length (moves_and_beads mb))"
    using bounds_sum [of mb] by blast+
  from a have "int (length (moves_and_beads mb)) < 2 ^ 1000"
    by (metis of_nat_less_iff of_nat_numeral of_nat_power)
  then have "15 * int (length (moves_and_beads mb)) < 15 * 2 ^ 1000" by simp
  also have "\<dots> < (2::int) ^ 1024 - 2 ^ 970" by simp
  finally have "sum_list (vals (moves_and_beads mb)) < 2 ^ 1024 - 2 ^ 970"
    using le by linarith
  with a pos draw_bead_member [of mb k]
  show "\<exists>mv. get_move self st k = Inr mv \<and> mv \<in> set (keys (moves_and_beads mb))"
    by (simp add: get_move_def)
next
  fix mb mv w
  assume a: "dict_get (matchboxes self) st = Some mb \<and> moves_and_beads mb = [(mv, w)]
          \<and> 0 < w \<and> w < 2 ^ 1024 - 2 ^ 970"
  with draw_bead_member [of mb k]
  show "get_move self st k = Inr mv"
    by (auto simp: get_move_def keys_def vals_def)
next
  fix mb
  assume "dict_get (matchboxes self) st = Some mb \<and> moves_and_beads mb = []"
  then show "get_move self st k = Inl IndexError"
    by (simp add: get_move_def draw_bead_def keys_def vals_def choices_empty)
next
  fix mb
  assume a: "dict_get (matchboxes self) st = Some mb \<and> moves_and_beads mb \<noteq> []
          \<and> 2 ^ 1024 - 2 ^ 970 \<le> \<bar>sum_list (vals (moves_and_beads mb))\<bar>"
  then have "choices (keys (moves_and_beads mb)) (vals (moves_and_beads mb)) k = Inl OverflowError"
    by (intro choices_overflow) (simp_all add: keys_def vals_def)
  with a show "get_move self st k = Inl OverflowError"
    by (simp add: get_move_def draw_bead_choices)
next
  fix mb
  assume a: "dict_get (matchboxes self) st = Some mb \<and> moves_and_beads mb \<noteq> []
          \<and> sum_list (vals (moves_and_beads mb)) \<le> 0
          \<and> - (2 ^ 1024 - 2 ^ 970) < sum_list (vals (moves_and_beads mb))"
  then have "choices (keys (moves_and_beads mb)) (vals (moves_and_beads mb)) k = Inl ValueError"
    by (intro choices_nonpositive) (simp_all add: keys_def vals_def)
  with a show "get_move self st k = Inl ValueError"
    by (simp add: get_move_def draw_bead_choices)
qed

theorem get_move_known_state_witness:
  "dict_get (matchboxes example_agent) ''X'' = None
   \<and> get_move example_agent ''X'' (2 ^ 52) = Inl Exception
   \<and> dict_get (matchboxes example_agent) ''S0''
       = Some \<lparr>state = ''S0'', moves_and_beads = [(move_A, 3), (move_B, 3)]\<rparr>
   \<and> (\<exists>mv. get_move example_agent ''S0'' (2 ^ 52) = Inr mv \<and> mv \<in> {move_A, move_B})
   \<and> dict_get (matchboxes example_agent) ''S1''
       = Some \<lparr>state = ''S1'', moves_and_beads = [(move_B, 5)]\<rparr>
   \<and> get_move example_agent ''S1'' (2 ^ 52) = Inr move_B
   \<and> dict_get (matchboxes example_agent) ''T'' = Some \<lparr>state = ''T'', moves_and_beads = []\<rparr>
   \<and> get_move example_agent ''T'' (2 ^ 52) = Inl IndexError
   \<and> get_move
        (example_agent\<lparr>matchboxes :=
           [(''H'', \<lparr>state = ''H'', moves_and_beads = [(move_A, 2 ^ 1024)]\<rparr>)]\<rparr>)
        ''H'' (2 ^ 52)
       = Inl OverflowError"
proof -
  let ?huge = "example_agent\<lparr>matchboxes :=
           [(''H'', \<lparr>state = ''H'', moves_and_beads = [(move_A, 2 ^ 1024)]\<rparr>)]\<rparr>"
  have x: "dict_get (matchboxes example_agent) ''X'' = None"
    by (simp add: example_agent_def dict_get_def)
  have s0: "dict_get (matchboxes example_agent) ''S0''
              = Some \<lparr>state = ''S0'', moves_and_beads = [(move_A, 3), (move_B, 3)]\<rparr>"
    by (simp add: example_agent_def dict_get_def)
  have s1: "dict_get (matchboxes example_agent) ''S1''
              = Some \<lparr>state = ''S1'', moves_and_beads = [(move_B, 5)]\<rparr>"
    by (simp add: example_agent_def dict_get_def)
  have t: "dict_get (matchboxes example_agent) ''T'' = Some \<lparr>state = ''T'', moves_and_beads = []\<rparr>"
    by (simp add: example_agent_def dict_get_def)
  have 1: "get_move example_agent ''X'' (2 ^ 52) = Inl Exception"
    by (rule get_move_known_state [THEN conjunct1, rule_format]) (rule x)
  have "\<exists>mv. get_move example_agent ''S0'' (2 ^ 52) = Inr mv
          \<and> mv \<in> set (keys (moves_and_beads
                 \<lparr>state = ''S0'', moves_and_beads = [(move_A, 3), (move_B, 3)]\<rparr>))"
    by (rule get_move_known_state [THEN conjunct2, THEN conjunct1, rule_format])
       (simp add: s0 vals_def)
  then have 2: "\<exists>mv. get_move example_agent ''S0'' (2 ^ 52) = Inr mv \<and> mv \<in> {move_A, move_B}"
    by (simp add: keys_def)
  have 3: "get_move example_agent ''S1'' (2 ^ 52) = Inr move_B"
    by (rule get_move_known_state
          [THEN conjunct2, THEN conjunct2, THEN conjunct2, THEN conjunct1, rule_format,
           of _ _ "\<lparr>state = ''S1'', moves_and_beads = [(move_B, 5)]\<rparr>" move_B 5])
       (simp add: s1)
  have 4: "get_move example_agent ''T'' (2 ^ 52) = Inl IndexError"
    by (rule get_move_known_state
          [THEN conjunct2, THEN conjunct2, THEN conjunct2, THEN conjunct2, THEN conjunct1,
           rule_format, of _ _ "\<lparr>state = ''T'', moves_and_beads = []\<rparr>"])
       (simp add: t)
  have 5: "get_move ?huge ''H'' (2 ^ 52) = Inl OverflowError"
    by (rule get_move_known_state
          [THEN conjunct2, THEN conjunct2, THEN conjunct2, THEN conjunct2, THEN conjunct2,
           THEN conjunct1, rule_format,
           of _ _ "\<lparr>state = ''H'', moves_and_beads = [(move_A, 2 ^ 1024)]\<rparr>"])
       (simp add: dict_get_def vals_def)
  from x s0 s1 t 1 2 3 4 5 show ?thesis by blast
qed

text \<open>
  The state \<open>T\<close> of the example agent is known and has no legal move: \<open>get_move\<close> raises
  \<open>IndexError\<close> there and returns no move.
\<close>

theorem get_move_no_moves_counterexample:
  "dict_get (matchboxes example_agent) ''T'' = Some \<lparr>state = ''T'', moves_and_beads = []\<rparr>
   \<and> get_move example_agent ''T'' (2 ^ 52) = Inl IndexError"
  by (simp add: example_agent_def dict_get_def get_move_def draw_bead_def keys_def vals_def
        choices_def accumulate_def)

section \<open>Training\<close>

lemma shape_keys: "shape boxes' = shape boxes \<Longrightarrow> keys boxes' = keys boxes"
proof -
  have "keys b = map fst (shape b)" for b :: matchbox_table
    by (simp add: shape_def keys_def comp_def)
  then show "shape boxes' = shape boxes \<Longrightarrow> keys boxes' = keys boxes" by simp
qed

lemma shape_dict_set:
  assumes "dict_get boxes st = Some mb" and "state mb' = state mb"
    and "keys (moves_and_beads mb') = keys (moves_and_beads mb)"
  shows "shape (dict_set boxes st mb') = shape boxes"
  using assms(1)
proof (induction boxes)
  case Nil
  then show ?case by (simp add: dict_get_def)
next
  case (Cons b boxes)
  obtain k v where b: "b = (k, v)" by (cases b)
  show ?case
  proof (cases "k = st")
    case True
    with Cons.prems b have "v = mb" by (simp add: dict_get_def)
    with True b assms(2,3) show ?thesis
      by (simp add: shape_def)
  next
    case False
    with Cons.prems b have "dict_get boxes st = Some mb" by (simp add: dict_get_def)
    from Cons.IH [OF this] False b show ?thesis
      by (simp add: shape_def)
  qed
qed

lemma weight_of_dict_set:
  "weight_of (dict_set boxes st mb) s mv =
     (if s = st then dict_get (moves_and_beads mb) mv else weight_of boxes s mv)"
  by (simp add: weight_of_def dict_get_set)

lemma adjust_each_unknown:
  "weight_of boxes st mv = None \<Longrightarrow>
   adjust_each (\<lambda>mb m. set_beads mb m c) ((st, mv) # rest) boxes = (Some KeyError, boxes)"
  by (auto simp: weight_of_def set_beads_def split: option.splits)

lemma adjust_each_known:
  assumes "weight_of boxes st mv = Some w"
  shows "\<exists>boxes1. adjust_each (\<lambda>mb m. set_beads mb m c) ((st, mv) # rest) boxes
                    = adjust_each (\<lambda>mb m. set_beads mb m c) rest boxes1
           \<and> shape boxes1 = shape boxes
           \<and> (\<forall>s m. weight_of boxes1 s m
                     = (if s = st \<and> m = mv then Some (clamped c w) else weight_of boxes s m))"
proof -
  from assms obtain mb where mb: "dict_get boxes st = Some mb"
    and w: "dict_get (moves_and_beads mb) mv = Some w"
    by (auto simp: weight_of_def split: option.splits)
  let ?mb' = "mb\<lparr>moves_and_beads := dict_set (moves_and_beads mb) mv (clamped c w)\<rparr>"
  have sb: "set_beads mb mv c = Inr ?mb'"
    using w by (simp add: set_beads_def clamped_def)
  have step: "adjust_each (\<lambda>mb m. set_beads mb m c) ((st, mv) # rest) boxes
                = adjust_each (\<lambda>mb m. set_beads mb m c) rest (dict_set boxes st ?mb')"
    using mb sb by simp
  have sk: "shape (dict_set boxes st ?mb') = shape boxes"
    using mb set_beads_state [OF sb] set_beads_keys [OF sb] by (rule shape_dict_set)
  have wt: "\<forall>s m. weight_of (dict_set boxes st ?mb') s m
              = (if s = st \<and> m = mv then Some (clamped c w) else weight_of boxes s m)"
    using mb by (auto simp: weight_of_dict_set dict_get_set weight_of_def)
  from step sk wt show ?thesis by blast
qed

lemma adjust_each_frame:
  "adjust_each (\<lambda>mb m. set_beads mb m c) ps boxes = (err, boxes') \<Longrightarrow>
   shape boxes' = shape boxes \<and> (\<forall>s m. (s, m) \<notin> set ps \<longrightarrow> weight_of boxes' s m = weight_of boxes s m)"
proof (induction ps arbitrary: boxes)
  case Nil
  then show ?case by simp
next
  case (Cons p ps)
  obtain st mv where p: "p = (st, mv)" by (cases p)
  show ?case
  proof (cases "weight_of boxes st mv")
    case None
    from adjust_each_unknown [OF None, of c ps] Cons.prems p show ?thesis
      by simp
  next
    case (Some w)
    from adjust_each_known [OF Some, of c ps] obtain boxes1 where
      1: "adjust_each (\<lambda>mb m. set_beads mb m c) ((st, mv) # ps) boxes
            = adjust_each (\<lambda>mb m. set_beads mb m c) ps boxes1"
      and 2: "shape boxes1 = shape boxes"
      and 3: "\<forall>s m. weight_of boxes1 s m
                     = (if s = st \<and> m = mv then Some (clamped c w) else weight_of boxes s m)"
      by blast
    from Cons.prems p 1 have "adjust_each (\<lambda>mb m. set_beads mb m c) ps boxes1 = (err, boxes')"
      by simp
    from Cons.IH [OF this] have 4: "shape boxes' = shape boxes1"
      and 5: "\<And>s m. (s, m) \<notin> set ps \<Longrightarrow> weight_of boxes' s m = weight_of boxes1 s m"
      by blast+
    have "weight_of boxes' s m = weight_of boxes s m" if "(s, m) \<notin> set (p # ps)" for s m
    proof -
      from that p have n: "(s, m) \<notin> set ps" "\<not> (s = st \<and> m = mv)" by auto
      from 5 [OF n(1)] 3 [rule_format, of s m] n(2) show ?thesis by simp
    qed
    with 4 2 show ?thesis by simp
  qed
qed

lemma adjust_each_error:
  "adjust_each (\<lambda>mb m. set_beads mb m c) ps boxes = (Some e, boxes') \<Longrightarrow> e = KeyError"
proof (induction ps arbitrary: boxes)
  case Nil
  then show ?case by simp
next
  case (Cons p ps)
  obtain st mv where p: "p = (st, mv)" by (cases p)
  show ?case
  proof (cases "weight_of boxes st mv")
    case None
    from adjust_each_unknown [OF None, of c ps] Cons.prems p show ?thesis by simp
  next
    case (Some w)
    from adjust_each_known [OF Some, of c ps] obtain boxes1 where
      "adjust_each (\<lambda>mb m. set_beads mb m c) ((st, mv) # ps) boxes
         = adjust_each (\<lambda>mb m. set_beads mb m c) ps boxes1"
      by blast
    with Cons.prems p have "adjust_each (\<lambda>mb m. set_beads mb m c) ps boxes1 = (Some e, boxes')"
      by simp
    then show ?thesis by (rule Cons.IH)
  qed
qed

lemma adjust_each_weights:
  "adjust_each (\<lambda>mb m. set_beads mb m c) ps boxes = (None, boxes') \<Longrightarrow>
   weight_of boxes s m = Some w \<Longrightarrow>
   weight_of boxes' s m = Some ((clamped c ^^ count_list ps (s, m)) w)"
proof (induction ps arbitrary: boxes w)
  case Nil
  then show ?case by simp
next
  case (Cons p ps)
  obtain st mv where p: "p = (st, mv)" by (cases p)
  show ?case
  proof (cases "weight_of boxes st mv")
    case None
    from adjust_each_unknown [OF None, of c ps] Cons.prems p show ?thesis by simp
  next
    case (Some w0)
    from adjust_each_known [OF Some, of c ps] obtain boxes1 where
      1: "adjust_each (\<lambda>mb m. set_beads mb m c) ((st, mv) # ps) boxes
            = adjust_each (\<lambda>mb m. set_beads mb m c) ps boxes1"
      and 3: "\<forall>s m. weight_of boxes1 s m
                     = (if s = st \<and> m = mv then Some (clamped c w0) else weight_of boxes s m)"
      by blast
    from Cons.prems p 1 have r: "adjust_each (\<lambda>mb m. set_beads mb m c) ps boxes1 = (None, boxes')"
      by simp
    show ?thesis
    proof (cases "s = st \<and> m = mv")
      case True
      with Some Cons.prems(2) have "w0 = w" by simp
      with 3 [rule_format, of s m] True have "weight_of boxes1 s m = Some (clamped c w)" by simp
      from Cons.IH [OF r this] True p show ?thesis
        by (simp add: funpow_swap1)
    next
      case False
      with 3 [rule_format, of s m] Cons.prems(2) have "weight_of boxes1 s m = Some w" by auto
      from Cons.IH [OF r this] False p show ?thesis by auto
    qed
  qed
qed

lemma shape_unknown:
  "shape boxes' = shape boxes \<Longrightarrow> dict_get boxes' st = None \<longleftrightarrow> dict_get boxes st = None"
  using shape_keys [of boxes' boxes] by (simp add: dict_get_None_iff)

lemma adjust_each_total:
  "\<forall>p \<in> set ps. known_pair boxes p \<Longrightarrow>
   \<exists>boxes'. adjust_each (\<lambda>mb m. set_beads mb m c) ps boxes = (None, boxes')"
proof (induction ps arbitrary: boxes)
  case Nil
  then show ?case by simp
next
  case (Cons p ps)
  obtain st mv where p: "p = (st, mv)" by (cases p)
  from Cons.prems p obtain w where w: "weight_of boxes st mv = Some w"
    by (auto simp: known_pair_def)
  from adjust_each_known [OF w, of c ps] obtain boxes1 where
    1: "adjust_each (\<lambda>mb m. set_beads mb m c) ((st, mv) # ps) boxes
          = adjust_each (\<lambda>mb m. set_beads mb m c) ps boxes1"
    and 3: "\<forall>s m. weight_of boxes1 s m
                   = (if s = st \<and> m = mv then Some (clamped c w) else weight_of boxes s m)"
    by blast
  from Cons.prems 3 [rule_format] have "\<forall>p \<in> set ps. known_pair boxes1 p"
    by (auto simp: known_pair_def)
  from Cons.IH [OF this] 1 p show ?case by simp
qed

lemma adjust_each_append:
  "adjust_each f (pre @ post) boxes =
     (case adjust_each f pre boxes of
        (None, boxes1) \<Rightarrow> adjust_each f post boxes1
      | (Some e, boxes1) \<Rightarrow> (Some e, boxes1))"
proof (induction pre arbitrary: boxes)
  case Nil
  then show ?case by simp
next
  case (Cons p pre)
  obtain st mv where p: "p = (st, mv)" by (cases p)
  show ?case
    by (simp add: p Cons.IH split: option.splits sum.splits)
qed


lemma reward_eq: "reward = (\<lambda>mb m. set_beads mb m 1)"
  by (intro ext) (simp add: reward_def)

lemma punish_eq: "punish = (\<lambda>mb m. set_beads mb m (- 1))"
  by (intro ext) (simp add: punish_def)

lemma every_other_nth:
  "every_other ys = map (\<lambda>k. ys ! (2 * k)) [0 ..< (length ys + 1) div 2]"
proof (induction ys rule: every_other.induct)
  case 1
  then show ?case by simp
next
  case (2 x)
  then show ?case by simp
next
  case (3 x y rest)
  have "map (\<lambda>k. (x # y # rest) ! (2 * k)) [0 ..< Suc ((length rest + 1) div 2)]
          = x # map (\<lambda>k. rest ! (2 * k)) [0 ..< (length rest + 1) div 2]"
    by (simp add: map_upt_Suc del: upt_Suc)
  with 3 show ?case by simp
qed

lemma slice_step2_own_turns:
  assumes "1 \<le> player"
  shows "slice_step2 history (player - 1) = own_turns history player"
proof -
  let ?i = "nat (player - 1)"
  let ?n = "length history"
  have "nat (min (player - 1) (int ?n)) = min ?i ?n"
    using assms by simp
  then have s: "slice_step2 history (player - 1) = every_other (drop ?i history)"
    using assms by (simp add: slice_step2_def Let_def min_def)
  have len: "(length (drop ?i history) + 1) div 2 = (?n + 1 - ?i) div 2"
    by (cases "?i \<le> ?n") auto
  have "map (\<lambda>k. drop ?i history ! (2 * k)) [0 ..< (?n + 1 - ?i) div 2]
          = map (\<lambda>k. history ! (?i + 2 * k)) [0 ..< (?n + 1 - ?i) div 2]"
  proof (rule map_cong [OF refl])
    fix k assume "k \<in> set [0 ..< (?n + 1 - ?i) div 2]"
    then have "?i + 2 * k < ?n" by auto
    then show "drop ?i history ! (2 * k) = history ! (?i + 2 * k)" by simp
  qed
  with s len show ?thesis
    by (simp add: every_other_nth own_turns_def)
qed

lemma train_model_unfold:
  "train_model self fs h player winner =
     (case adjust_each (\<lambda>mb m. set_beads mb m (if player = winner then 1 else - 1))
             (slice_step2 h (player - 1)) (matchboxes self) of
        (Some e, boxes) \<Rightarrow> (Some e, self\<lparr>matchboxes := boxes\<rparr>, fs)
      | (None, boxes) \<Rightarrow>
          (None, self\<lparr>matchboxes := boxes\<rparr>,
           fs(model_path self \<mapsto> save_states boxes [])))"
  by (simp add: train_model_def Let_def save_model_def reward_eq punish_eq
        split: prod.splits option.splits)

lemma method_eq:
  "(if player = winner then reward else punish)
     = (\<lambda>mb m. set_beads mb m (if player = winner then 1 else - 1))"
  by (simp add: reward_eq punish_eq)

text \<open>
  C6. For a player position of at least 1 (positions are counted from 1), the slice
  \<open>game_history[player_idx::2]\<close> is the list of the pairs at the positions \<open>player - 1\<close>,
  \<open>player - 1 + 2\<close>, ... of the history. \<open>_train_model\<close> calls \<open>reward\<close> on each of these
  pairs in turn when the player is the winner and \<open>punish\<close> otherwise, stops at the first
  exception, and saves the model when there is none. When every extracted pair is a state
  of the table with a move of its matchbox, the call returns, the file holds the new
  table, and every weight has been adjusted once for each occurrence of its pair among the
  extracted pairs. For the table \<open>S0 \<mapsto> {A: 3, B: 3}\<close>, the history \<open>[(S0, A)]\<close> and
  player 1, winner 1 gives \<open>A\<close> the weight 4 and winner 2 the weight 2; \<open>A\<close> and \<open>B\<close>
  stand for any two moves.
\<close>

theorem train_model_own_turns:
  assumes "1 \<le> player"
  shows "slice_step2 h (player - 1) = own_turns h player \<and>
    train_model self fs h player winner =
      (case adjust_each (if player = winner then reward else punish) (own_turns h player)
              (matchboxes self) of
         (Some e, boxes) \<Rightarrow> (Some e, self\<lparr>matchboxes := boxes\<rparr>, fs)
       | (None, boxes) \<Rightarrow>
           (None, self\<lparr>matchboxes := boxes\<rparr>,
            fs(model_path self \<mapsto> save_states boxes []))) \<and>
    ((\<forall>p \<in> set (own_turns h player). known_pair (matchboxes self) p) \<longrightarrow>
       (\<exists>boxes. train_model self fs h player winner
                  = (None, self\<lparr>matchboxes := boxes\<rparr>,
                     fs(model_path self \<mapsto> save_states boxes []))
          \<and> (\<forall>st mv w. weight_of (matchboxes self) st mv = Some w \<longrightarrow>
                weight_of boxes st mv
                  = Some ((clamped (if player = winner then 1 else - 1)
                             ^^ count_list (own_turns h player) (st, mv)) w)))) \<and>
    train_model
        (self\<lparr>matchboxes := [(''S0'', \<lparr>state = ''S0'', moves_and_beads = [(A, 3), (B, 3)]\<rparr>)]\<rparr>)
        fs [(''S0'', A)] 1 1
      = (None,
         self\<lparr>matchboxes := [(''S0'', \<lparr>state = ''S0'', moves_and_beads = [(A, 4), (B, 3)]\<rparr>)]\<rparr>,
         fs(model_path self \<mapsto>
              [(''S0'', [\<lparr>item_move = encode_move A, item_beads = 4\<rparr>,
                         \<lparr>item_move = encode_move B, item_beads = 3\<rparr>])])) \<and>
    train_model
        (self\<lparr>matchboxes := [(''S0'', \<lparr>state = ''S0'', moves_and_beads = [(A, 3), (B, 3)]\<rparr>)]\<rparr>)
        fs [(''S0'', A)] 1 2
      = (None,
         self\<lparr>matchboxes := [(''S0'', \<lparr>state = ''S0'', moves_and_beads = [(A, 2), (B, 3)]\<rparr>)]\<rparr>,
         fs(model_path self \<mapsto>
              [(''S0'', [\<lparr>item_move = encode_move A, item_beads = 2\<rparr>,
                         \<lparr>item_move = encode_move B, item_beads = 3\<rparr>])]))"
proof (intro conjI impI)
  let ?c = "if player = winner then 1 else - 1 :: int"
  let ?f = "\<lambda>mb m. set_beads mb m ?c"
  show sl: "slice_step2 h (player - 1) = own_turns h player"
    using assms by (rule slice_step2_own_turns)
  show "train_model self fs h player winner =
      (case adjust_each (if player = winner then reward else punish) (own_turns h player)
              (matchboxes self) of
         (Some e, boxes) \<Rightarrow> (Some e, self\<lparr>matchboxes := boxes\<rparr>, fs)
       | (None, boxes) \<Rightarrow>
           (None, self\<lparr>matchboxes := boxes\<rparr>,
            fs(model_path self \<mapsto> save_states boxes [])))"
    unfolding method_eq train_model_unfold sl
    by (simp split: prod.splits option.splits)
  show "\<exists>boxes. train_model self fs h player winner
                  = (None, self\<lparr>matchboxes := boxes\<rparr>,
                     fs(model_path self \<mapsto> save_states boxes []))
          \<and> (\<forall>st mv w. weight_of (matchboxes self) st mv = Some w \<longrightarrow>
                weight_of boxes st mv
                  = Some ((clamped (if player = winner then 1 else - 1)
                             ^^ count_list (own_turns h player) (st, mv)) w))"
    if known: "\<forall>p \<in> set (own_turns h player). known_pair (matchboxes self) p"
  proof -
    from adjust_each_total [OF known, of ?c] obtain boxes where
      b: "adjust_each ?f (own_turns h player) (matchboxes self) = (None, boxes)" by blast
    have t: "train_model self fs h player winner
               = (None, self\<lparr>matchboxes := boxes\<rparr>,
                  fs(model_path self \<mapsto> save_states boxes []))"
      unfolding train_model_unfold sl b by simp
    have "weight_of boxes st mv = Some ((clamped ?c ^^ count_list (own_turns h player) (st, mv)) w)"
      if "weight_of (matchboxes self) st mv = Some w" for st mv w
      using b that by (rule adjust_each_weights)
    with t show ?thesis by blast
  qed
  show "train_model
        (self\<lparr>matchboxes := [(''S0'', \<lparr>state = ''S0'', moves_and_beads = [(A, 3), (B, 3)]\<rparr>)]\<rparr>)
        fs [(''S0'', A)] 1 1
      = (None,
         self\<lparr>matchboxes := [(''S0'', \<lparr>state = ''S0'', moves_and_beads = [(A, 4), (B, 3)]\<rparr>)]\<rparr>,
         fs(model_path self \<mapsto>
              [(''S0'', [\<lparr>item_move = encode_move A, item_beads = 4\<rparr>,
                         \<lparr>item_move = encode_move B, item_beads = 3\<rparr>])]))"
    by (simp add: train_model_def slice_step2_def reward_def set_beads_def dict_get_def
          save_model_def)
  show "train_model
        (self\<lparr>matchboxes := [(''S0'', \<lparr>state = ''S0'', moves_and_beads = [(A, 3), (B, 3)]\<rparr>)]\<rparr>)
        fs [(''S0'', A)] 1 2
      = (None,
         self\<lparr>matchboxes := [(''S0'', \<lparr>state = ''S0'', moves_and_beads = [(A, 2), (B, 3)]\<rparr>)]\<rparr>,
         fs(model_path self \<mapsto>
              [(''S0'', [\<lparr>item_move = encode_move A, item_beads = 2\<rparr>,
                         \<lparr>item_move = encode_move B, item_beads = 3\<rparr>])]))"
    by (simp add: train_model_def slice_step2_def punish_def set_beads_def dict_get_def
          save_model_def)
qed

text \<open>
  C7. Whatever \<open>_train_model\<close> returns or raises, it leaves the states of the table, the
  name and the moves of every matchbox as they were, changes no field of the agent other
  than the table, and leaves the weight of every pair of a state and a move that is not
  among the extracted pairs as it was (a pair without a weight still has none).
\<close>

theorem train_model_frame:
  assumes "train_model self fs h player winner = (err, self', fs')"
  shows "shape (matchboxes self') = shape (matchboxes self)
    \<and> self' = self\<lparr>matchboxes := matchboxes self'\<rparr>
    \<and> (\<forall>st mv. (st, mv) \<notin> set (slice_step2 h (player - 1)) \<longrightarrow>
          weight_of (matchboxes self') st mv = weight_of (matchboxes self) st mv)"
proof -
  let ?f = "\<lambda>mb m. set_beads mb m (if player = winner then 1 else - 1)"
  obtain r boxes where
    b: "adjust_each ?f (slice_step2 h (player - 1)) (matchboxes self) = (r, boxes)"
    by (cases "adjust_each ?f (slice_step2 h (player - 1)) (matchboxes self)")
  from assms have s: "self' = self\<lparr>matchboxes := boxes\<rparr>"
    unfolding train_model_unfold b by (cases r) auto
  from adjust_each_frame [OF b] s show ?thesis by simp
qed

text \<open>
  C10. When the extracted pairs contain a pair whose state has no matchbox,
  \<open>_train_model\<close> raises \<open>KeyError\<close>, the table is left as the loop over the pairs before
  that pair left it, and the files are untouched. When all the pairs before it are known,
  that loop raised nothing and every weight has been adjusted once for each occurrence of
  its pair among them.
\<close>

theorem train_model_not_atomic:
  assumes "slice_step2 h (player - 1) = pre @ (st, mv) # post"
    and "dict_get (matchboxes self) st = None"
  shows "train_model self fs h player winner
      = (Some KeyError,
         self\<lparr>matchboxes :=
                snd (adjust_each (if player = winner then reward else punish) pre
                       (matchboxes self))\<rparr>,
         fs)
    \<and> ((\<forall>p \<in> set pre. known_pair (matchboxes self) p) \<longrightarrow>
         fst (adjust_each (if player = winner then reward else punish) pre (matchboxes self))
           = None
         \<and> (\<forall>s m w. weight_of (matchboxes self) s m = Some w \<longrightarrow>
               weight_of (snd (adjust_each (if player = winner then reward else punish) pre
                                (matchboxes self))) s m
                 = Some ((clamped (if player = winner then 1 else - 1)
                            ^^ count_list pre (s, m)) w)))"
proof -
  let ?c = "if player = winner then 1 else - 1 :: int"
  let ?f = "\<lambda>mb m. set_beads mb m ?c"
  obtain r boxes where b: "adjust_each ?f pre (matchboxes self) = (r, boxes)"
    by (cases "adjust_each ?f pre (matchboxes self)")
  from adjust_each_frame [OF b] have "shape boxes = shape (matchboxes self)" by simp
  from shape_unknown [OF this, of st] assms(2) have "dict_get boxes st = None"
    by simp
  then have u: "weight_of boxes st mv = None"
    by (simp add: weight_of_def)
  have whole: "adjust_each ?f (pre @ (st, mv) # post) (matchboxes self) = (Some KeyError, boxes)"
  proof (cases r)
    case None
    with b adjust_each_unknown [OF u, of ?c post] show ?thesis
      by (simp add: adjust_each_append)
  next
    case (Some e)
    with b adjust_each_error [of ?c pre "matchboxes self" e boxes] show ?thesis
      by (simp add: adjust_each_append)
  qed
  have 1: "train_model self fs h player winner = (Some KeyError, self\<lparr>matchboxes := boxes\<rparr>, fs)"
    unfolding train_model_unfold assms(1) whole by simp
  have 2: "r = None \<and> (\<forall>s m w. weight_of (matchboxes self) s m = Some w \<longrightarrow>
               weight_of boxes s m = Some ((clamped ?c ^^ count_list pre (s, m)) w))"
    if known: "\<forall>p \<in> set pre. known_pair (matchboxes self) p"
  proof -
    from adjust_each_total [OF known, of ?c] b have n: "r = None" by auto
    have "weight_of boxes s m = Some ((clamped ?c ^^ count_list pre (s, m)) w)"
      if "weight_of (matchboxes self) s m = Some w" for s m w
      using b [unfolded n] that by (rule adjust_each_weights)
    with n show ?thesis by blast
  qed
  from 1 2 show ?thesis
    unfolding method_eq b by simp
qed


theorem train_model_own_turns_witness:
  "(1::int) \<le> 1
   \<and> own_turns [(''S0'', move_A), (''S1'', move_B), (''S0'', move_A)] 1
       = [(''S0'', move_A), (''S0'', move_A)]
   \<and> slice_step2 [(''S0'', move_A), (''S1'', move_B), (''S0'', move_A)] (1 - 1)
       = [(''S0'', move_A), (''S0'', move_A)]
   \<and> known_pair (matchboxes example_agent) (''S0'', move_A)
   \<and> weight_of (matchboxes example_agent) ''S0'' move_A = Some 3
   \<and> (\<exists>boxes. train_model example_agent Map.empty
                  [(''S0'', move_A), (''S1'', move_B), (''S0'', move_A)] 1 1
                = (None, example_agent\<lparr>matchboxes := boxes\<rparr>,
                   [model_path example_agent \<mapsto> save_states boxes []])
        \<and> weight_of boxes ''S0'' move_A = Some 5)"
proof -
  let ?h = "[(''S0'', move_A), (''S1'', move_B), (''S0'', move_A)]"
  have p: "(1::int) \<le> 1" by simp
  have ot: "own_turns ?h 1 = [(''S0'', move_A), (''S0'', move_A)]"
    by (simp add: own_turns_def upt_rec)
  have w: "weight_of (matchboxes example_agent) ''S0'' move_A = Some 3"
    by (simp add: weight_of_def example_agent_def dict_get_def)
  have k: "\<forall>p \<in> set (own_turns ?h 1). known_pair (matchboxes example_agent) p"
    by (simp add: ot known_pair_def w)
  note t = train_model_own_turns [OF p, of ?h example_agent Map.empty 1]
  from t have sl: "slice_step2 ?h (1 - 1) = [(''S0'', move_A), (''S0'', move_A)]"
    by (simp only: ot)
  from t k obtain boxes where
    1: "train_model example_agent Map.empty ?h 1 1
          = (None, example_agent\<lparr>matchboxes := boxes\<rparr>,
             [model_path example_agent \<mapsto> save_states boxes []])"
    and 2: "\<forall>st mv w. weight_of (matchboxes example_agent) st mv = Some w \<longrightarrow>
              weight_of boxes st mv
                = Some ((clamped (if (1::int) = 1 then 1 else - 1)
                           ^^ count_list (own_turns ?h 1) (st, mv)) w)"
    by blast
  from 2 [rule_format, OF w] have 3: "weight_of boxes ''S0'' move_A = Some 5"
    by (simp add: ot clamped_def numeral_2_eq_2)
  have k': "known_pair (matchboxes example_agent) (''S0'', move_A)"
    by (simp add: known_pair_def w)
  from p ot sl k' w 1 3 show ?thesis by blast
qed

theorem train_model_frame_witness:
  "train_model example_agent Map.empty [(''S0'', move_A), (''S1'', move_B), (''S0'', move_A)] 1 2
     = (None,
        example_agent\<lparr>matchboxes :=
          [(''S0'', \<lparr>state = ''S0'', moves_and_beads = [(move_A, 1), (move_B, 3)]\<rparr>),
           (''S1'', \<lparr>state = ''S1'', moves_and_beads = [(move_B, 5)]\<rparr>),
           (''T'', \<lparr>state = ''T'', moves_and_beads = []\<rparr>)]\<rparr>,
        [model_path example_agent \<mapsto>
           [(''S0'', [\<lparr>item_move = [[0, 0], [0, 1]], item_beads = 1\<rparr>,
                      \<lparr>item_move = [[0, 0], [1, 0]], item_beads = 3\<rparr>]),
            (''S1'', [\<lparr>item_move = [[0, 0], [1, 0]], item_beads = 5\<rparr>]),
            (''T'', [])]])
   \<and> (''S1'', move_B) \<notin> set (slice_step2 [(''S0'', move_A), (''S1'', move_B), (''S0'', move_A)] (1 - 1))
   \<and> weight_of
        [(''S0'', \<lparr>state = ''S0'', moves_and_beads = [(move_A, 1), (move_B, 3)]\<rparr>),
         (''S1'', \<lparr>state = ''S1'', moves_and_beads = [(move_B, 5)]\<rparr>),
         (''T'', \<lparr>state = ''T'', moves_and_beads = []\<rparr>)] ''S1'' move_B
       = weight_of (matchboxes example_agent) ''S1'' move_B
   \<and> shape
        [(''S0'', \<lparr>state = ''S0'', moves_and_beads = [(move_A, 1), (move_B, 3)]\<rparr>),
         (''S1'', \<lparr>state = ''S1'', moves_and_beads = [(move_B, 5)]\<rparr>),
         (''T'', \<lparr>state = ''T'', moves_and_beads = []\<rparr>)]
       = shape (matchboxes example_agent)"
proof -
  let ?h = "[(''S0'', move_A), (''S1'', move_B), (''S0'', move_A)]"
  let ?boxes = "[(''S0'', \<lparr>state = ''S0'', moves_and_beads = [(move_A, 1), (move_B, 3)]\<rparr>),
           (''S1'', \<lparr>state = ''S1'', moves_and_beads = [(move_B, 5)]\<rparr>),
           (''T'', \<lparr>state = ''T'', moves_and_beads = []\<rparr>)]"
  have run: "train_model example_agent Map.empty ?h 1 2
     = (None, example_agent\<lparr>matchboxes := ?boxes\<rparr>,
        [model_path example_agent \<mapsto>
           [(''S0'', [\<lparr>item_move = [[0, 0], [0, 1]], item_beads = 1\<rparr>,
                      \<lparr>item_move = [[0, 0], [1, 0]], item_beads = 3\<rparr>]),
            (''S1'', [\<lparr>item_move = [[0, 0], [1, 0]], item_beads = 5\<rparr>]),
            (''T'', [])]])"
    by (simp add: train_model_def slice_step2_def punish_def set_beads_def dict_get_def
          save_model_def example_agent_def move_A_def move_B_def encode_move_def)
  have n: "(''S1'', move_B) \<notin> set (slice_step2 ?h (1 - 1))"
    by (simp add: slice_step2_def)
  note f = train_model_frame [OF run]
  from f have s: "shape ?boxes = shape (matchboxes example_agent)" by simp
  from f [THEN conjunct2, THEN conjunct2, rule_format, OF n]
  have w: "weight_of ?boxes ''S1'' move_B = weight_of (matchboxes example_agent) ''S1'' move_B"
    by simp
  from run n w s show ?thesis by blast
qed

theorem train_model_not_atomic_witness:
  "slice_step2 [(''S0'', move_A), (''S1'', move_B), (''X'', move_A), (''S1'', move_B),
                (''S0'', move_B)] (1 - 1)
     = [(''S0'', move_A)] @ (''X'', move_A) # [(''S0'', move_B)]
   \<and> dict_get (matchboxes example_agent) ''X'' = None
   \<and> train_model example_agent Map.empty
        [(''S0'', move_A), (''S1'', move_B), (''X'', move_A), (''S1'', move_B), (''S0'', move_B)]
        1 2
     = (Some KeyError,
        example_agent\<lparr>matchboxes :=
          [(''S0'', \<lparr>state = ''S0'', moves_and_beads = [(move_A, 2), (move_B, 3)]\<rparr>),
           (''S1'', \<lparr>state = ''S1'', moves_and_beads = [(move_B, 5)]\<rparr>),
           (''T'', \<lparr>state = ''T'', moves_and_beads = []\<rparr>)]\<rparr>,
        Map.empty)"
proof -
  let ?h = "[(''S0'', move_A), (''S1'', move_B), (''X'', move_A), (''S1'', move_B),
             (''S0'', move_B)]"
  have a1: "slice_step2 ?h (1 - 1) = [(''S0'', move_A)] @ (''X'', move_A) # [(''S0'', move_B)]"
    by (simp add: slice_step2_def)
  have a2: "dict_get (matchboxes example_agent) ''X'' = None"
    by (simp add: example_agent_def dict_get_def)
  from train_model_not_atomic [OF a1 a2, of Map.empty 2]
  have "train_model example_agent Map.empty ?h 1 2
     = (Some KeyError,
        example_agent\<lparr>matchboxes :=
          [(''S0'', \<lparr>state = ''S0'', moves_and_beads = [(move_A, 2), (move_B, 3)]\<rparr>),
           (''S1'', \<lparr>state = ''S1'', moves_and_beads = [(move_B, 5)]\<rparr>),
           (''T'', \<lparr>state = ''T'', moves_and_beads = []\<rparr>)]\<rparr>,
        Map.empty)"
    by (simp add: punish_def set_beads_def dict_get_def example_agent_def move_A_def move_B_def)
  with a1 a2 show ?thesis by blast
qed


section \<open>Construction\<close>

lemma decode_encode_move: "decode_move (encode_move mv) = Inr mv"
  by (cases mv) (auto simp: decode_move_def encode_move_def)

lemma dict_set_absent: "k \<notin> set (keys d) \<Longrightarrow> dict_set d k v = d @ [(k, v)]"
  by (induction d) (auto simp: keys_def)

lemma set_dict_set: "set (dict_set d k v) \<subseteq> insert (k, v) (set d)"
proof (induction d)
  case Nil
  then show ?case by simp
next
  case (Cons p d)
  then show ?case by (cases p) auto
qed

lemma distinct_keys_dict_set: "distinct (keys d) \<Longrightarrow> distinct (keys (dict_set d k v))"
  by (simp add: keys_dict_set)

lemma dict_get_member: "distinct (keys d) \<Longrightarrow> (k, v) \<in> set d \<Longrightarrow> dict_get d k = Some v"
  by (simp add: dict_get_def keys_def)

text \<open>Saving a table of beads and importing the items gives the table back.\<close>

lemma import_save_moves:
  "distinct (keys d) \<Longrightarrow> set (keys d) \<inter> set (keys acc) = {} \<Longrightarrow>
   import_moves (save_moves d) acc = Inr (acc @ d)"
proof (induction d arbitrary: acc)
  case Nil
  then show ?case by simp
next
  case (Cons p d)
  obtain mv b where p: "p = (mv, b)" by (cases p)
  from Cons.prems p have n: "mv \<notin> set (keys acc)" by (auto simp: keys_def)
  from Cons.prems p have d: "distinct (keys d)"
    and i: "set (keys d) \<inter> set (keys (acc @ [(mv, b)])) = {}"
    by (auto simp: keys_def)
  from Cons.IH [OF d i] show ?case
    by (simp add: p decode_encode_move dict_set_absent [OF n])
qed

lemma save_states_map:
  "distinct (keys boxes) \<Longrightarrow> set (keys boxes) \<inter> set (keys model) = {} \<Longrightarrow>
   save_states boxes model = model @ map saved_state boxes"
proof (induction boxes arbitrary: model)
  case Nil
  then show ?case by simp
next
  case (Cons b boxes)
  obtain st mb where b: "b = (st, mb)" by (cases b)
  from Cons.prems b have n: "st \<notin> set (keys model)" by (auto simp: keys_def)
  from Cons.prems b have d: "distinct (keys boxes)"
    and i: "set (keys boxes) \<inter> set (keys (model @ [(st, save_moves (moves_and_beads mb))])) = {}"
    by (auto simp: keys_def)
  from Cons.IH [OF d i] show ?case
    by (simp add: b dict_set_absent [OF n] saved_state_def)
qed

lemma import_states_same:
  assumes "distinct (keys boxes)"
  shows "list_all (\<lambda>b. b \<in> set boxes \<and> state (snd b) = fst b
                     \<and> distinct (keys (moves_and_beads (snd b)))) bs \<Longrightarrow>
   import_states (map saved_state bs) boxes = Inr boxes"
proof (induction bs)
  case Nil
  then show ?case by simp
next
  case (Cons b bs)
  obtain st mb where b: "b = (st, mb)" by (cases b)
  from Cons.prems b have m: "(st, mb) \<in> set boxes" and s: "state mb = st"
    and d: "distinct (keys (moves_and_beads mb))"
    and rest: "list_all (\<lambda>b. b \<in> set boxes \<and> state (snd b) = fst b
                     \<and> distinct (keys (moves_and_beads (snd b)))) bs"
    by simp_all
  have im: "import_moves (save_moves (moves_and_beads mb)) [] = Inr (moves_and_beads mb)"
    using import_save_moves [OF d, of "[]"] by (simp add: keys_def)
  have mbeq: "\<lparr>state = st, moves_and_beads = moves_and_beads mb\<rparr> = mb"
    using s by simp
  have "dict_set boxes st mb = boxes"
    using dict_get_member [OF assms m] by (rule dict_set_same)
  with Cons.IH [OF rest] show ?case
    by (simp add: b saved_state_def im mbeq)
qed

lemma import_states_fresh:
  "well_formed bs \<Longrightarrow> set (keys bs) \<inter> set (keys acc) = {} \<Longrightarrow>
   import_states (map saved_state bs) acc = Inr (acc @ bs)"
proof (induction bs arbitrary: acc)
  case Nil
  then show ?case by simp
next
  case (Cons b bs)
  obtain st mb where b: "b = (st, mb)" by (cases b)
  from Cons.prems b have s: "state mb = st" and d: "distinct (keys (moves_and_beads mb))"
    and wf: "well_formed bs" and n: "st \<notin> set (keys acc)"
    and i: "set (keys bs) \<inter> set (keys (acc @ [(st, mb)])) = {}"
    by (auto simp: well_formed_def keys_def)
  have im: "import_moves (save_moves (moves_and_beads mb)) [] = Inr (moves_and_beads mb)"
    using import_save_moves [OF d, of "[]"] by (simp add: keys_def)
  have mbeq: "\<lparr>state = st, moves_and_beads = moves_and_beads mb\<rparr> = mb"
    using s by simp
  from Cons.IH [OF wf i] show ?case
    by (simp add: b saved_state_def im mbeq dict_set_absent [OF n])
qed

lemma well_formed_dict_set:
  assumes "well_formed boxes" and "distinct (keys t)"
  shows "well_formed (dict_set boxes st \<lparr>state = st, moves_and_beads = t\<rparr>)"
proof -
  have "set (dict_set boxes st \<lparr>state = st, moves_and_beads = t\<rparr>)
          \<subseteq> insert (st, \<lparr>state = st, moves_and_beads = t\<rparr>) (set boxes)"
    by (rule set_dict_set)
  with assms show ?thesis
    by (auto simp: well_formed_def list_all_iff distinct_keys_dict_set)
qed

lemma fill_beads_distinct:
  "distinct (keys acc) \<Longrightarrow> distinct (keys (fill_beads moves n acc))"
  by (induction moves arbitrary: acc) (simp_all add: distinct_keys_dict_set)

lemma fill_beads_get:
  "dict_get (fill_beads moves n acc) mv = (if mv \<in> set moves then Some n else dict_get acc mv)"
  by (induction moves arbitrary: acc) (auto simp: dict_get_set)

lemma fill_beads_keys: "set (keys (fill_beads moves n acc)) = set (keys acc) \<union> set moves"
  by (induction moves arbitrary: acc) (auto simp: keys_dict_set)

lemma fill_beads_vals: "set (vals (fill_beads moves n acc)) \<subseteq> insert n (set (vals acc))"
proof (induction moves arbitrary: acc)
  case Nil
  then show ?case by auto
next
  case (Cons mv moves)
  from Cons.IH [of "dict_set acc mv n"] vals_dict_set [of acc mv n] show ?case
    by auto
qed

lemma create_matchboxes_well_formed:
  "well_formed boxes \<Longrightarrow> well_formed (create_matchboxes table n boxes)"
proof (induction table arbitrary: boxes)
  case Nil
  then show ?case by simp
next
  case (Cons p table)
  obtain st moves where p: "p = (st, moves)" by (cases p)
  have "distinct (keys (fill_beads moves n []))"
    by (rule fill_beads_distinct) (simp add: keys_def)
  from well_formed_dict_set [OF Cons.prems this, of st] Cons.IH p show ?case
    by simp
qed

lemma dict_get_Cons: "dict_get ((k, v) # d) k' = (if k' = k then Some v else dict_get d k')"
  by (simp add: dict_get_def)

lemma create_matchboxes_get:
  "distinct (keys table) \<Longrightarrow>
   dict_get (create_matchboxes table n boxes) st =
     (case dict_get table st of
        None \<Rightarrow> dict_get boxes st
      | Some moves \<Rightarrow> Some \<lparr>state = st, moves_and_beads = fill_beads moves n []\<rparr>)"
proof (induction table arbitrary: boxes)
  case Nil
  then show ?case by (simp add: dict_get_def)
next
  case (Cons p table)
  obtain s moves where p: "p = (s, moves)" by (cases p)
  let ?b = "dict_set boxes s \<lparr>state = s, moves_and_beads = fill_beads moves n []\<rparr>"
  from Cons.prems p have d: "distinct (keys table)" and n: "s \<notin> set (keys table)"
    by (auto simp: keys_def)
  from n have g: "dict_get table s = None" by (simp add: dict_get_None_iff)
  have step: "dict_get (create_matchboxes (p # table) n boxes) st =
     (case dict_get table st of
        None \<Rightarrow> dict_get ?b st
      | Some moves \<Rightarrow> Some \<lparr>state = st, moves_and_beads = fill_beads moves n []\<rparr>)"
    using Cons.IH [OF d, of ?b] by (simp add: p)
  show ?case
  proof (cases "st = s")
    case True
    with step g show ?thesis
      by (simp add: p dict_get_Cons dict_get_set split: option.splits)
  next
    case False
    with step show ?thesis
      by (simp add: p dict_get_Cons dict_get_set split: option.splits)
  qed
qed

lemma create_matchboxes_keys:
  "distinct (keys table) \<Longrightarrow> set (keys table) \<inter> set (keys boxes) = {} \<Longrightarrow>
   keys (create_matchboxes table n boxes) = keys boxes @ keys table"
proof (induction table arbitrary: boxes)
  case Nil
  then show ?case by (simp add: keys_def)
next
  case (Cons p table)
  obtain s moves where p: "p = (s, moves)" by (cases p)
  let ?b = "dict_set boxes s \<lparr>state = s, moves_and_beads = fill_beads moves n []\<rparr>"
  from Cons.prems p have d: "distinct (keys table)" and n: "s \<notin> set (keys boxes)"
    and n': "s \<notin> set (keys table)" and i0: "set (keys table) \<inter> set (keys boxes) = {}"
    by (auto simp: keys_def)
  from n have k: "keys ?b = keys boxes @ [s]" by (simp add: keys_dict_set)
  with n' i0 have i: "set (keys table) \<inter> set (keys ?b) = {}" by auto
  from Cons.IH [OF d i] k p show ?case by (simp add: keys_def)
qed


lemma create_matchboxes_vals:
  "list_all (\<lambda>b. list_all (\<lambda>w. w = n) (vals (moves_and_beads (snd b)))) boxes \<Longrightarrow>
   list_all (\<lambda>b. list_all (\<lambda>w. w = n) (vals (moves_and_beads (snd b))))
     (create_matchboxes table n boxes)"
proof (induction table arbitrary: boxes)
  case Nil
  then show ?case by simp
next
  case (Cons p table)
  obtain st moves where p: "p = (st, moves)" by (cases p)
  let ?mb = "\<lparr>state = st, moves_and_beads = fill_beads moves n []\<rparr>"
  have "list_all (\<lambda>w. w = n) (vals (moves_and_beads ?mb))"
    using fill_beads_vals [of moves n "[]"] by (auto simp: list_all_iff vals_def)
  with Cons.prems set_dict_set [of boxes st ?mb]
  have "list_all (\<lambda>b. list_all (\<lambda>w. w = n) (vals (moves_and_beads (snd b))))
          (dict_set boxes st ?mb)"
    unfolding list_all_iff by fastforce
  from Cons.IH [OF this] p show ?case by simp
qed

lemma well_formed_Nil: "well_formed []"
  by (simp add: well_formed_def keys_def)

lemma well_formed_members:
  "well_formed boxes \<Longrightarrow>
   list_all (\<lambda>b. b \<in> set boxes \<and> state (snd b) = fst b
                 \<and> distinct (keys (moves_and_beads (snd b)))) boxes"
  by (auto simp: well_formed_def list_all_iff)

lemma init_created:
  assumes "kw_game_name kw = Some game"
    and "path = default_model_path base_dir game (kw_player_position kw)"
    and "fs path = None" and "kw_states_and_moves kw = Some table"
  shows "init base_dir kw fs
      = Inr (\<lparr>player_position = kw_player_position kw, game_name = game,
               states_and_moves = Some table, model_path = path,
               matchboxes = create_matchboxes table 3 []\<rparr>,
             fs(path \<mapsto> map saved_state (create_matchboxes table 3 [])))"
proof -
  let ?boxes = "create_matchboxes table 3 []"
  have wf: "well_formed ?boxes"
    using well_formed_Nil by (rule create_matchboxes_well_formed)
  then have d: "distinct (keys ?boxes)" by (simp add: well_formed_def)
  have sv: "save_states ?boxes [] = map saved_state ?boxes"
    using save_states_map [OF d, of "[]"] by (simp add: keys_def)
  have im: "import_states (map saved_state ?boxes) ?boxes = Inr ?boxes"
    using d well_formed_members [OF wf] by (rule import_states_same)
  show ?thesis
    using assms sv im
    by (simp add: init_def Let_def create_model_def save_model_def import_model_def)
qed

text \<open>
  C8. Construction, for an agent given a game name, with \<open>path\<close> the default path of its
  model. If a file is stored at the path, the table of the agent is what \<open>import_model\<close>
  makes of that file (or its exception), whatever table of states and moves was supplied,
  and no file is written. If there is no file and a table of states and moves was
  supplied, construction returns an agent whose table is built from the supplied one with
  3 beads for every move, and the file system holds the saved table at the path; the
  saved table imports to the same table, every weight in it is 3, and for a supplied
  table without repeated states every state has its matchbox with exactly its moves. If
  there is neither a file nor a table, construction raises \<open>FileNotFoundError\<close>.
\<close>

theorem init_policy:
  assumes "kw_game_name kw = Some game"
    and "path = default_model_path base_dir game (kw_player_position kw)"
  shows
   "(\<forall>model. fs path = Some model \<longrightarrow>
       init base_dir kw fs =
         (case import_states model [] of
            Inl e \<Rightarrow> Inl e
          | Inr boxes \<Rightarrow>
              Inr (\<lparr>player_position = kw_player_position kw, game_name = game,
                     states_and_moves = kw_states_and_moves kw, model_path = path,
                     matchboxes = boxes\<rparr>, fs))) \<and>
    (\<forall>table. fs path = None \<and> kw_states_and_moves kw = Some table \<longrightarrow>
       init base_dir kw fs
         = Inr (\<lparr>player_position = kw_player_position kw, game_name = game,
                  states_and_moves = Some table, model_path = path,
                  matchboxes = create_matchboxes table 3 []\<rparr>,
                fs(path \<mapsto> map saved_state (create_matchboxes table 3 [])))
       \<and> import_states (map saved_state (create_matchboxes table 3 [])) []
           = Inr (create_matchboxes table 3 [])
       \<and> list_all (\<lambda>b. list_all (\<lambda>w. w = 3) (vals (moves_and_beads (snd b))))
           (create_matchboxes table 3 [])
       \<and> (distinct (keys table) \<longrightarrow>
             keys (create_matchboxes table 3 []) = keys table
             \<and> (\<forall>st moves. dict_get table st = Some moves \<longrightarrow>
                   (\<exists>mb. dict_get (create_matchboxes table 3 []) st = Some mb
                      \<and> state mb = st
                      \<and> set (keys (moves_and_beads mb)) = set moves
                      \<and> (\<forall>mv \<in> set moves. get_beads mb mv = 3))))) \<and>
    (fs path = None \<and> kw_states_and_moves kw = None \<longrightarrow>
       init base_dir kw fs = Inl FileNotFoundError)"
proof (intro conjI allI impI)
  fix model
  assume "fs path = Some model"
  with assms show "init base_dir kw fs =
         (case import_states model [] of
            Inl e \<Rightarrow> Inl e
          | Inr boxes \<Rightarrow>
              Inr (\<lparr>player_position = kw_player_position kw, game_name = game,
                     states_and_moves = kw_states_and_moves kw, model_path = path,
                     matchboxes = boxes\<rparr>, fs))"
    by (simp add: init_def Let_def import_model_def split: sum.splits)
next
  fix table
  assume a: "fs path = None \<and> kw_states_and_moves kw = Some table"
  then show "init base_dir kw fs
         = Inr (\<lparr>player_position = kw_player_position kw, game_name = game,
                  states_and_moves = Some table, model_path = path,
                  matchboxes = create_matchboxes table 3 []\<rparr>,
                fs(path \<mapsto> map saved_state (create_matchboxes table 3 [])))"
    using init_created [OF assms, of fs table] by simp
  have wf: "well_formed (create_matchboxes table 3 [])"
    using well_formed_Nil by (rule create_matchboxes_well_formed)
  show "import_states (map saved_state (create_matchboxes table 3 [])) []
          = Inr (create_matchboxes table 3 [])"
    using import_states_fresh [OF wf, of "[]"] by (simp add: keys_def)
  show "list_all (\<lambda>b. list_all (\<lambda>w. w = 3) (vals (moves_and_beads (snd b))))
           (create_matchboxes table 3 [])"
    by (rule create_matchboxes_vals) simp
next
  fix table
  assume "fs path = None \<and> kw_states_and_moves kw = Some table" and d: "distinct (keys table)"
  show "keys (create_matchboxes table 3 []) = keys table"
    using create_matchboxes_keys [OF d, of "[]" 3] by (simp add: keys_def)
next
  fix table st moves
  assume "fs path = None \<and> kw_states_and_moves kw = Some table" and d: "distinct (keys table)"
    and g: "dict_get table st = Some moves"
  let ?mb = "\<lparr>state = st, moves_and_beads = fill_beads moves 3 []\<rparr>"
  have 1: "dict_get (create_matchboxes table 3 []) st = Some ?mb"
    using create_matchboxes_get [OF d, of 3 "[]" st] g by simp
  have 2: "set (keys (moves_and_beads ?mb)) = set moves"
    by (simp add: fill_beads_keys) (simp add: keys_def)
  have 3: "\<forall>mv \<in> set moves. get_beads ?mb mv = 3"
    by (simp add: get_beads_def fill_beads_get)
  from 1 2 3 show "\<exists>mb. dict_get (create_matchboxes table 3 []) st = Some mb
                      \<and> state mb = st
                      \<and> set (keys (moves_and_beads mb)) = set moves
                      \<and> (\<forall>mv \<in> set moves. get_beads mb mv = 3)"
    by (intro exI [of _ ?mb]) simp
next
  assume "fs path = None \<and> kw_states_and_moves kw = None"
  with assms show "init base_dir kw fs = Inl FileNotFoundError"
    by (simp add: init_def Let_def)
qed


theorem init_policy_witness:
  "kw_game_name \<lparr>kw_player_position = Some 1, kw_game_name = Some ''demo'',
                  kw_states_and_moves = Some [(''S0'', [move_A, move_B])]\<rparr> = Some ''demo''
   \<and> init ''/srv''
         \<lparr>kw_player_position = Some 1, kw_game_name = Some ''demo'',
          kw_states_and_moves = Some [(''S0'', [move_A, move_B])]\<rparr>
         [default_model_path ''/srv'' ''demo'' (Some 1) \<mapsto>
            [(''S0'', [\<lparr>item_move = [[0, 0], [0, 1]], item_beads = 7\<rparr>])]]
       = Inr (\<lparr>player_position = Some 1, game_name = ''demo'',
                states_and_moves = Some [(''S0'', [move_A, move_B])],
                model_path = default_model_path ''/srv'' ''demo'' (Some 1),
                matchboxes = [(''S0'', \<lparr>state = ''S0'', moves_and_beads = [(move_A, 7)]\<rparr>)]\<rparr>,
              [default_model_path ''/srv'' ''demo'' (Some 1) \<mapsto>
                 [(''S0'', [\<lparr>item_move = [[0, 0], [0, 1]], item_beads = 7\<rparr>])]])
   \<and> init ''/srv''
         \<lparr>kw_player_position = Some 1, kw_game_name = Some ''demo'',
          kw_states_and_moves = Some [(''S0'', [move_A, move_B])]\<rparr>
         Map.empty
       = Inr (\<lparr>player_position = Some 1, game_name = ''demo'',
                states_and_moves = Some [(''S0'', [move_A, move_B])],
                model_path = default_model_path ''/srv'' ''demo'' (Some 1),
                matchboxes =
                  [(''S0'', \<lparr>state = ''S0'', moves_and_beads = [(move_A, 3), (move_B, 3)]\<rparr>)]\<rparr>,
              [default_model_path ''/srv'' ''demo'' (Some 1) \<mapsto>
                 [(''S0'', [\<lparr>item_move = [[0, 0], [0, 1]], item_beads = 3\<rparr>,
                            \<lparr>item_move = [[0, 0], [1, 0]], item_beads = 3\<rparr>])]])
   \<and> init ''/srv''
         \<lparr>kw_player_position = Some 1, kw_game_name = Some ''demo'', kw_states_and_moves = None\<rparr>
         Map.empty
       = Inl FileNotFoundError"
proof -
  let ?table = "[(''S0'', [move_A, move_B])]"
  let ?kw = "\<lparr>kw_player_position = Some 1, kw_game_name = Some ''demo'',
              kw_states_and_moves = Some ?table\<rparr>"
  let ?bare = "\<lparr>kw_player_position = Some 1, kw_game_name = Some ''demo'',
               kw_states_and_moves = None\<rparr>"
  let ?path = "default_model_path ''/srv'' ''demo'' (Some 1)"
  let ?file = "[(''S0'', [\<lparr>item_move = [[0, 0], [0, 1]], item_beads = 7\<rparr>])]"
  have g: "kw_game_name ?kw = Some ''demo''" by simp
  have g0: "kw_game_name ?bare = Some ''demo''" by simp
  have p: "?path = default_model_path ''/srv'' ''demo'' (kw_player_position ?kw)" by simp
  have p0: "?path = default_model_path ''/srv'' ''demo'' (kw_player_position ?bare)" by simp
  have ab: "move_A \<noteq> move_B" by (simp add: move_A_def move_B_def)
  have 1: "init ''/srv'' ?kw [?path \<mapsto> ?file]
       = Inr (\<lparr>player_position = Some 1, game_name = ''demo'',
                states_and_moves = Some ?table, model_path = ?path,
                matchboxes = [(''S0'', \<lparr>state = ''S0'', moves_and_beads = [(move_A, 7)]\<rparr>)]\<rparr>,
              [?path \<mapsto> ?file])"
    using init_policy [OF g p, of "[?path \<mapsto> ?file]"]
    by (simp add: decode_move_def move_A_def)
  have 2: "init ''/srv'' ?kw Map.empty
       = Inr (\<lparr>player_position = Some 1, game_name = ''demo'',
                states_and_moves = Some ?table, model_path = ?path,
                matchboxes =
                  [(''S0'', \<lparr>state = ''S0'', moves_and_beads = [(move_A, 3), (move_B, 3)]\<rparr>)]\<rparr>,
              [?path \<mapsto>
                 [(''S0'', [\<lparr>item_move = [[0, 0], [0, 1]], item_beads = 3\<rparr>,
                            \<lparr>item_move = [[0, 0], [1, 0]], item_beads = 3\<rparr>])]])"
    using init_policy [OF g p, of Map.empty] ab
    by (simp add: saved_state_def) (simp add: encode_move_def move_A_def move_B_def)
  have 3: "init ''/srv'' ?bare Map.empty = Inl FileNotFoundError"
    using init_policy [OF g0 p0, of Map.empty] by simp
  from g 1 2 3 show ?thesis by blast
qed


end
